theory Spec2Isabelle
  imports Main "HOL-Library.Sublist"
begin

section \<open>The scribe cloud functions\<close>

text \<open>
  The repository holds three revisions of one Firebase Cloud Functions module:
  \<^item> \<^verbatim>\<open>src/functions/index.js\<close> (suffix \<open>_v1\<close>): \<^verbatim>\<open>getEnhancedReceipt\<close> only, with
    recent receipts as context and no long-term memory;
  \<^item> the first file of \<^verbatim>\<open>src/unnamed/part_000\<close>, lines 1-154 (suffix \<open>_v2\<close>):
    \<^verbatim>\<open>getEnhancedReceipt\<close> with long-term memory and \<^verbatim>\<open>updateMemoryOnNewReceipt\<close>;
  \<^item> the second file of \<^verbatim>\<open>src/unnamed/part_000\<close>, lines 156-319 (suffix \<open>_v3\<close>):
    the same two functions, reworked.
  Each function is embedded once per revision, under the source's name and the suffix.

  The Firestore Admin SDK, the callable-function framework and the generative backend
  are outside the repository. They are modelled by the small interface below: a store
  value, reads that can fault, a transaction whose buffered writes are applied together
  when the callback returns and dropped when it throws, and a backend that maps a
  prompt to a text or fails. Every call a function makes on one of them is recorded as
  an event, in program order.
\<close>

subsection \<open>Documents and the store\<close>

type_synonym uid = string

text \<open>
  \<^verbatim>\<open>users/{uid}\<close> holds the counter; the field may be missing from an existing document.
  \<^verbatim>\<open>users/{uid}/memory/summary\<close> is written by the trigger alone, always with both
  fields. A receipt carries the two fields the functions read.
\<close>

record user_doc =
  receiptCount :: "int option"

record memory_doc =
  summary :: string
  lastUpdated :: nat

record receipt =
  message :: string
  timestamp :: nat

record store =
  users :: "uid \<rightharpoonup> user_doc"
  memories :: "uid \<rightharpoonup> memory_doc"
  receipts :: "uid \<Rightarrow> receipt list"

subsection \<open>Errors, references and events\<close>

datatype error =
    TypeError
  | Unavailable
  | NotFound
  | ProviderError string

datatype error_code = Unauthenticated | InvalidArgument | Internal

text \<open>
  What a callable function throws: an \<^verbatim>\<open>HttpsError\<close> it raised itself, with its code and
  message, or another error that escaped it uncaught.
\<close>

datatype thrown = HttpsError error_code string | Uncaught error

datatype ref =
    UserRef uid
  | MemoryRef uid
  | ReceiptsQuery uid nat

text \<open>
  \<open>TxGet\<close> is \<^verbatim>\<open>transaction.get(ref)\<close>; \<open>DbGet\<close> is \<^verbatim>\<open>ref.get()\<close> or \<^verbatim>\<open>query.get()\<close>, a
  read issued on the database handle; \<open>TxUpdate\<close> is
  \<^verbatim>\<open>transaction.update(userRef, {receiptCount: n})\<close>; \<open>TxSetMerge\<close> is
  \<^verbatim>\<open>transaction.set(userRef, {receiptCount: n}, {merge: true})\<close>; \<open>TxSetMemory\<close> is
  \<^verbatim>\<open>transaction.set(memoryRef, {summary: t, lastUpdated: serverTimestamp()})\<close>;
  \<open>Generate\<close> is the call of the generative backend with a prompt.
\<close>

datatype event =
    TxGet ref
  | DbGet ref
  | TxUpdate uid int
  | TxSetMerge uid int
  | TxSetMemory uid string
  | Generate string
  | LogInfo uid int
  | LogError error

text \<open>
  What one invocation meets: the server time at which its transaction commits, the
  backend's answer to each prompt (\<open>generate\<close> for \<^verbatim>\<open>generateContent\<close> followed by
  \<^verbatim>\<open>response.text()\<close>, \<open>generateMessage\<close> for the candidates' contents returned by
  \<^verbatim>\<open>DiscussServiceClient.generateMessage\<close>), and the reads that fault.
\<close>

record env =
  now :: nat
  generate :: "string \<Rightarrow> error + string"
  generateMessage :: "string \<Rightarrow> error + string list"
  faulty :: "ref \<Rightarrow> bool"

subsection \<open>Effects: a result or a thrown error, and the events so far\<close>

type_synonym 'a eff = "(error + 'a) \<times> event list"

definition ret :: "'a \<Rightarrow> 'a eff" where
  "ret x = (Inr x, [])"

definition throw :: "error \<Rightarrow> 'a eff" where
  "throw e = (Inl e, [])"

definition emit :: "event \<Rightarrow> unit eff" where
  "emit ev = (Inr (), [ev])"

definition andThen :: "'a eff \<Rightarrow> ('a \<Rightarrow> 'b eff) \<Rightarrow> 'b eff" where
  "andThen m f =
     (case m of
        (Inl e, tr) \<Rightarrow> (Inl e, tr)
      | (Inr x, tr) \<Rightarrow> (case f x of (r, tr') \<Rightarrow> (r, tr @ tr')))"

subsection \<open>The store's reads\<close>

text \<open>
  \<^verbatim>\<open>orderBy("timestamp", "desc")\<close>: newest first. The order among equal timestamps is
  the store's; no theorem below depends on it.
\<close>

definition orderByTimestampDesc :: "receipt list \<Rightarrow> receipt list" where
  "orderByTimestampDesc rs = rev (sort_key timestamp rs)"

definition txGetUser :: "env \<Rightarrow> store \<Rightarrow> uid \<Rightarrow> user_doc option eff" where
  "txGetUser e s u =
     (if faulty e (UserRef u) then Inl Unavailable else Inr (users s u),
      [TxGet (UserRef u)])"

definition getMemoryDoc :: "env \<Rightarrow> store \<Rightarrow> uid \<Rightarrow> memory_doc option eff" where
  "getMemoryDoc e s u =
     (if faulty e (MemoryRef u) then Inl Unavailable else Inr (memories s u),
      [DbGet (MemoryRef u)])"

definition queryReceipts :: "env \<Rightarrow> store \<Rightarrow> uid \<Rightarrow> nat \<Rightarrow> receipt list eff" where
  "queryReceipts e s u n =
     (if faulty e (ReceiptsQuery u n) then Inl Unavailable
      else Inr (take n (orderByTimestampDesc (receipts s u))),
      [DbGet (ReceiptsQuery u n)])"

definition generateContent :: "env \<Rightarrow> string \<Rightarrow> string eff" where
  "generateContent e prompt = (generate e prompt, [Generate prompt])"

subsection \<open>JavaScript's operators on the values the functions meet\<close>

definition nl :: string where
  "nl = ''\<newline>''"

text \<open>\<^verbatim>\<open>Array.prototype.join\<close>.\<close>

fun join :: "string \<Rightarrow> string list \<Rightarrow> string" where
  "join sep [] = []"
| "join sep [x] = x"
| "join sep (x # y # ys) = x @ sep @ join sep (y # ys)"

text \<open>\<^verbatim>\<open>s || d\<close> on a string: the empty string is falsy.\<close>

definition orElse :: "string \<Rightarrow> string \<Rightarrow> string" where
  "orElse s d = (if s = [] then d else s)"

text \<open>
  A JavaScript number is an IEEE double. The counter is an integer, held here as an
  \<open>int\<close>; what the code computes with is the double nearest to it. \<open>roundToDouble\<close>
  rounds a magnitude to a 53-bit significand, to nearest and ties to even: it is the
  identity below \<open>2 ^ 53\<close>, and above it only every second, fourth, ... integer is a
  number. A stored counter is a Firestore integer or an integral double, far below the
  largest double, so the rounding never overflows.
\<close>

function bitLength :: "int \<Rightarrow> nat" where
  "bitLength n = (if n \<le> 0 then 0 else Suc (bitLength (n div 2)))"
  by pat_completeness auto
termination
  by (relation "measure nat") auto

definition roundToDouble :: "int \<Rightarrow> int" where
  "roundToDouble m =
     (if bitLength m \<le> 53 then m
      else
        (let e = bitLength m - 53;
             q = m div 2 ^ e;
             r = m mod 2 ^ e
         in if 2 ^ (e - 1) < r \<or> (r = 2 ^ (e - 1) \<and> odd q) then (q + 1) * 2 ^ e
            else q * 2 ^ e))"

definition jsNumber :: "int \<Rightarrow> int" where
  "jsNumber x = (if x < 0 then - roundToDouble (- x) else roundToDouble x)"

text \<open>\<^verbatim>\<open>a + b\<close> on two numbers with integer values: the exact sum, rounded.\<close>

definition jsAdd :: "int \<Rightarrow> int \<Rightarrow> int" where
  "jsAdd a b = jsNumber (a + b)"

text \<open>A numeric field of a document as the code receives it from \<^verbatim>\<open>data()\<close>.\<close>

definition numberField :: "int option \<Rightarrow> int option" where
  "numberField c = map_option jsNumber c"

text \<open>
  \<^verbatim>\<open>n || 0\<close> on a field that is a number or missing. The test \<^verbatim>\<open>newCount % 5 !== 0\<close> is
  written \<open>newCount mod 5 \<noteq> 0\<close> below: JavaScript's remainder is exact on integral
  doubles and truncates where \<open>mod\<close> floors, and the two are 0 for the same integers.
\<close>

definition orZero :: "int option \<Rightarrow> int" where
  "orZero c = (case c of None \<Rightarrow> 0 | Some n \<Rightarrow> if n = 0 then 0 else n)"

text \<open>The line of one receipt: the template \<^verbatim>\<open>`- ${r.message}`\<close>.\<close>

definition entryLine :: "receipt \<Rightarrow> string" where
  "entryLine r = ''- '' @ message r"

text \<open>
  The two chains that render the retrieved receipts:
  \<^verbatim>\<open>recentReceipts.reverse().map((r) => `- ${r.message}`)\<close> in \<^verbatim>\<open>getEnhancedReceipt\<close> and
  \<^verbatim>\<open>receiptsSnap.docs.map((d) => `- ${d.data().message}`).reverse()\<close> in
  \<^verbatim>\<open>updateMemoryOnNewReceipt\<close>.
\<close>

definition contextLines :: "receipt list \<Rightarrow> string list" where
  "contextLines recentReceipts = map entryLine (rev recentReceipts)"

definition historyLines :: "receipt list \<Rightarrow> string list" where
  "historyLines docs = rev (map entryLine docs)"

subsection \<open>The callable framework\<close>

text \<open>
  \<^verbatim>\<open>context.auth\<close> is absent for an unauthenticated call, and carries the caller's uid
  otherwise. \<^verbatim>\<open>data\<close> is \<^verbatim>\<open>null\<close> (\<open>None\<close>) when the function is called without a payload,
  and otherwise an object whose \<^verbatim>\<open>text\<close> is absent (\<^verbatim>\<open>undefined\<close>) or a string; \<^verbatim>\<open>!rawText\<close>
  holds for the absent and for the empty text. Every revision reads \<^verbatim>\<open>text\<close> from \<^verbatim>\<open>data\<close>
  (\<^verbatim>\<open>data.text\<close>, or \<^verbatim>\<open>const {text: rawText} = data\<close>) after the authentication check, before
  the text check and outside the \<^verbatim>\<open>try\<close>: on \<^verbatim>\<open>null\<close> that read throws a \<^verbatim>\<open>TypeError\<close>, which
  leaves the function uncaught. The reply is the object \<^verbatim>\<open>{text: ...}\<close>.
\<close>

record call_context =
  auth :: "uid option"

record call_data =
  data_text :: "string option"

record reply =
  reply_text :: string

type_synonym 'a called = "(thrown + 'a) \<times> event list"

text \<open>
  \<^verbatim>\<open>try { ... } catch (error) { log(error); throw new HttpsError("internal", msg) }\<close>
\<close>

definition catchInternal :: "string \<Rightarrow> 'a eff \<Rightarrow> 'a called" where
  "catchInternal msg m =
     (case m of
        (Inl e, tr) \<Rightarrow> (Inl (HttpsError Internal msg), tr @ [LogError e])
      | (Inr x, tr) \<Rightarrow> (Inr x, tr))"

subsection \<open>\<^verbatim>\<open>getEnhancedReceipt\<close>, third revision (part_000, lines 176-227)\<close>

definition enhancePrompt_v3 :: "string \<Rightarrow> string \<Rightarrow> string \<Rightarrow> string" where
  "enhancePrompt_v3 memorySummary contextHistory rawText = join nl
     [''You are a personal scribe with a witty, slightly playful,'',
      ''and very human tone. Your goal is to rephrase the user's raw note into a'',
      ''beautifully written, insightful journal entry. The final output must be a'',
      ''single paragraph under 200 characters. Use the following long-term memory'',
      ''and recent entries for deep context, but don't feel obligated to reference'',
      ''them directly. Focus on making the new entry shine.'',
      '''',
      ''LONG-TERM MEMORY:'',
      memorySummary,
      '''',
      ''RECENT ENTRIES:'',
      orElse contextHistory ''No recent entries.'',
      '''',
      ''NEW NOTE: \"'' @ rawText @ ''\"'']"

definition enhanceBody_v3 :: "env \<Rightarrow> store \<Rightarrow> uid \<Rightarrow> string \<Rightarrow> reply eff" where
  "enhanceBody_v3 e s u rawText =
     andThen (getMemoryDoc e s u) (\<lambda>memoryDoc.
       let memorySummary =
             (case memoryDoc of Some d \<Rightarrow> summary d | None \<Rightarrow> ''No long-term memory yet.'')
       in
       andThen (queryReceipts e s u 3) (\<lambda>recentReceipts.
         let contextHistory = join nl (contextLines recentReceipts);
             prompt = enhancePrompt_v3 memorySummary contextHistory rawText
         in
         andThen (generateContent e prompt) (\<lambda>enhanced.
           ret \<lparr>reply_text = enhanced\<rparr>)))"

definition getEnhancedReceipt_v3 ::
  "env \<Rightarrow> call_context \<Rightarrow> call_data option \<Rightarrow> store \<Rightarrow> reply called" where
  "getEnhancedReceipt_v3 e ctx dat s =
     (case auth ctx of
        None \<Rightarrow> (Inl (HttpsError Unauthenticated ''Auth required.''), [])
      | Some u \<Rightarrow>
          (case dat of
             None \<Rightarrow> (Inl (Uncaught TypeError), [])
           | Some d \<Rightarrow>
               (case data_text d of
                  None \<Rightarrow> (Inl (HttpsError InvalidArgument ''Text required.''), [])
                | Some rawText \<Rightarrow>
                    if rawText = [] then
                      (Inl (HttpsError InvalidArgument ''Text required.''), [])
                    else catchInternal ''AI Scribe failed.'' (enhanceBody_v3 e s u rawText))))"

subsection \<open>\<^verbatim>\<open>getEnhancedReceipt\<close>, first revision (src/functions/index.js, lines 19-93)\<close>

definition enhancePrompt_v1 :: "string \<Rightarrow> string \<Rightarrow> string" where
  "enhancePrompt_v1 contextText rawText = join nl
     [''You are a supportive and insightful biographer.'',
      ''Your task is to take a raw note from a user and expand it into a'',
      ''beautifully written, reflective journal entry of 2-3 sentences.'',
      ''Frame it as a significant moment in their life story.'',
      '''',
      ''Use the following recent entries as context to understand recurring'',
      ''themes or ongoing stories. This context should inform the tone and'',
      ''perspective of your writing, but do not explicitly reference these'',
      ''past entries.'',
      ''CONTEXT of the last few entries:'',
      orElse contextText ''No recent entries.'',
      '''',
      ''Now, based on that context, please rephrase the following NEW NOTE:'',
      ''NEW NOTE: \"'' @ rawText @ ''\"'']"

text \<open>
  \<^verbatim>\<open>client.generateMessage(...)\<close>, then \<^verbatim>\<open>result[0].candidates[0].content\<close>: reading the
  first candidate of an answer without candidates throws.
\<close>

definition generateMessageCall :: "env \<Rightarrow> string \<Rightarrow> string list eff" where
  "generateMessageCall e prompt = (generateMessage e prompt, [Generate prompt])"

definition firstCandidate :: "string list \<Rightarrow> string eff" where
  "firstCandidate cs = (case cs of [] \<Rightarrow> throw TypeError | c # _ \<Rightarrow> ret c)"

definition enhanceBody_v1 :: "env \<Rightarrow> store \<Rightarrow> uid \<Rightarrow> string \<Rightarrow> reply eff" where
  "enhanceBody_v1 e s u rawText =
     andThen (queryReceipts e s u 3) (\<lambda>recentReceipts.
       let contextText = join nl (contextLines recentReceipts);
           prompt = enhancePrompt_v1 contextText rawText
       in
       andThen (generateMessageCall e prompt) (\<lambda>candidates.
         andThen (firstCandidate candidates) (\<lambda>enhancedText.
           ret \<lparr>reply_text = enhancedText\<rparr>)))"

definition getEnhancedReceipt_v1 ::
  "env \<Rightarrow> call_context \<Rightarrow> call_data option \<Rightarrow> store \<Rightarrow> reply called" where
  "getEnhancedReceipt_v1 e ctx dat s =
     (case auth ctx of
        None \<Rightarrow>
          (Inl (HttpsError Unauthenticated ''You must be logged in to use the AI Scribe.''), [])
      | Some u \<Rightarrow>
          (case dat of
             None \<Rightarrow> (Inl (Uncaught TypeError), [])
           | Some d \<Rightarrow>
               (case data_text d of
                  None \<Rightarrow>
                    (Inl (HttpsError InvalidArgument
                       (''The function must be called with one argument 'text' '' @
                        ''containing the message to rewrite.'')), [])
                | Some rawText \<Rightarrow>
                    if rawText = [] then
                      (Inl (HttpsError InvalidArgument
                         (''The function must be called with one argument 'text' '' @
                          ''containing the message to rewrite.'')), [])
                    else catchInternal ''Failed to get a response from the AI Scribe.''
                           (enhanceBody_v1 e s u rawText))))"

subsection \<open>\<^verbatim>\<open>getEnhancedReceipt\<close>, second revision (part_000, lines 20-90)\<close>

text \<open>
  The Admin SDK's \<^verbatim>\<open>DocumentSnapshot.exists\<close> is a boolean property. This revision
  writes \<^verbatim>\<open>memoryDoc.exists()\<close>: it applies the boolean as a function, which throws a
  \<^verbatim>\<open>TypeError\<close> whatever the snapshot holds. The third revision reads the property.
\<close>

definition callExists :: "'a option \<Rightarrow> bool eff" where
  "callExists snapshot = throw TypeError"

definition enhancePrompt_v2 :: "string \<Rightarrow> string \<Rightarrow> string \<Rightarrow> string" where
  "enhancePrompt_v2 memorySummary contextHistory rawText = join nl
     [''You are a supportive biographer. Expand the following raw'',
      ''note into a reflective journal entry. The final output must be a single'',
      ''paragraph under 200 characters.'',
      '''',
      ''Use the following long-term memory and recent entries for deep context.'',
      '''',
      ''LONG-TERM MEMORY:'',
      memorySummary,
      '''',
      ''RECENT ENTRIES:'',
      orElse contextHistory ''No recent entries.'',
      '''',
      ''NEW NOTE: \"'' @ rawText @ ''\"'']"

definition enhanceBody_v2 :: "env \<Rightarrow> store \<Rightarrow> uid \<Rightarrow> string \<Rightarrow> reply eff" where
  "enhanceBody_v2 e s u rawText =
     andThen (getMemoryDoc e s u) (\<lambda>memoryDoc.
       andThen (callExists memoryDoc) (\<lambda>present.
         let memorySummary =
               (case memoryDoc of
                  Some d \<Rightarrow> if present then summary d else ''No long-term memory yet.''
                | None \<Rightarrow> ''No long-term memory yet.'')
         in
         andThen (queryReceipts e s u 3) (\<lambda>recentReceipts.
           let contextHistory = join nl (contextLines recentReceipts);
               prompt = enhancePrompt_v2 memorySummary contextHistory rawText
           in
           andThen (generateContent e prompt) (\<lambda>enhancedText.
             ret \<lparr>reply_text = enhancedText\<rparr>))))"

definition getEnhancedReceipt_v2 ::
  "env \<Rightarrow> call_context \<Rightarrow> call_data option \<Rightarrow> store \<Rightarrow> reply called" where
  "getEnhancedReceipt_v2 e ctx dat s =
     (case auth ctx of
        None \<Rightarrow>
          (Inl (HttpsError Unauthenticated ''You must be logged in to use the AI Scribe.''), [])
      | Some u \<Rightarrow>
          (case dat of
             None \<Rightarrow> (Inl (Uncaught TypeError), [])
           | Some d \<Rightarrow>
               (case data_text d of
                  None \<Rightarrow>
                    (Inl (HttpsError InvalidArgument
                       ''The function must be called with 'text' containing the message.''), [])
                | Some rawText \<Rightarrow>
                    if rawText = [] then
                      (Inl (HttpsError InvalidArgument
                         ''The function must be called with 'text' containing the message.''), [])
                    else catchInternal ''Failed to get a response from the AI Scribe.''
                           (enhanceBody_v2 e s u rawText))))"

subsection \<open>Transactions\<close>

text \<open>
  \<^verbatim>\<open>db.runTransaction(callback)\<close>: the writes the callback issues on the transaction are
  buffered. When the callback returns they are applied together, \<^verbatim>\<open>serverTimestamp()\<close>
  standing for the commit time; when the callback throws, or a write cannot be applied,
  the transaction is rejected and none of them is applied. \<^verbatim>\<open>update\<close> needs the document
  to exist; \<^verbatim>\<open>set\<close> with \<^verbatim>\<open>merge\<close> creates it or overwrites the named field; \<^verbatim>\<open>set\<close> without
  \<^verbatim>\<open>merge\<close> replaces the document.
\<close>

definition applyWrite :: "nat \<Rightarrow> event \<Rightarrow> store \<Rightarrow> store option" where
  "applyWrite t ev s =
     (case ev of
        TxUpdate u n \<Rightarrow>
          (case users s u of
             None \<Rightarrow> None
           | Some d \<Rightarrow> Some (s\<lparr>users := (users s)(u \<mapsto> d\<lparr>receiptCount := Some n\<rparr>)\<rparr>))
      | TxSetMerge u n \<Rightarrow>
          Some (s\<lparr>users := (users s)(u \<mapsto>
                  (case users s u of
                     None \<Rightarrow> \<lparr>receiptCount = Some n\<rparr>
                   | Some d \<Rightarrow> d\<lparr>receiptCount := Some n\<rparr>))\<rparr>)
      | TxSetMemory u txt \<Rightarrow>
          Some (s\<lparr>memories := (memories s)(u \<mapsto> \<lparr>summary = txt, lastUpdated = t\<rparr>)\<rparr>)
      | TxGet r \<Rightarrow> Some s
      | DbGet r \<Rightarrow> Some s
      | Generate p \<Rightarrow> Some s
      | LogInfo u n \<Rightarrow> Some s
      | LogError e \<Rightarrow> Some s)"

fun commit :: "nat \<Rightarrow> event list \<Rightarrow> store \<Rightarrow> store option" where
  "commit t [] s = Some s"
| "commit t (ev # evs) s =
     (case applyWrite t ev s of None \<Rightarrow> None | Some s' \<Rightarrow> commit t evs s')"

definition runTransaction :: "env \<Rightarrow> store \<Rightarrow> 'a eff \<Rightarrow> 'a eff \<times> store" where
  "runTransaction e s body =
     (case body of
        (Inl err, tr) \<Rightarrow> ((Inl err, tr), s)
      | (Inr r, tr) \<Rightarrow>
          (case commit (now e) tr s of
             None \<Rightarrow> ((Inl NotFound, tr), s)
           | Some s' \<Rightarrow> ((Inr r, tr), s')))"

subsection \<open>\<^verbatim>\<open>updateMemoryOnNewReceipt\<close>, second revision (part_000, lines 96-154)\<close>

definition curatorPrompt_v2 :: "string \<Rightarrow> string \<Rightarrow> string" where
  "curatorPrompt_v2 currentMemory recentHistory = join nl
     [''You are a memory curator. Here is the user's'',
      ''current memory summary and their newest journal entries.'',
      ''Integrate the new information into the existing summary, keeping it concise'',
      ''(under 500 characters) and focused on key facts, themes, and goals.'',
      ''Output only the updated summary, not conversational text.'',
      '''',
      ''CURRENT SUMMARY:'',
      orElse currentMemory ''No summary yet.'',
      '''',
      ''NEW ENTRIES:'',
      recentHistory]"

text \<open>
  \<^verbatim>\<open>userDoc.data().receiptCount\<close>: \<^verbatim>\<open>data()\<close> of a snapshot of a missing document is
  \<^verbatim>\<open>undefined\<close>, and reading a field of it throws.
\<close>

definition dataReceiptCount :: "user_doc option \<Rightarrow> int option eff" where
  "dataReceiptCount userDoc =
     (case userDoc of
        None \<Rightarrow> throw TypeError
      | Some d \<Rightarrow> ret (numberField (receiptCount d)))"

definition updateBody_v2 :: "env \<Rightarrow> store \<Rightarrow> uid \<Rightarrow> unit eff" where
  "updateBody_v2 e s userId =
     andThen (txGetUser e s userId) (\<lambda>userDoc.
       andThen (dataReceiptCount userDoc) (\<lambda>stored.
         let newCount = jsAdd (orZero stored) 1 in
         andThen (emit (TxUpdate userId newCount)) (\<lambda>_.
           if newCount mod 5 \<noteq> 0 then ret ()
           else
             andThen (emit (LogInfo userId newCount)) (\<lambda>_.
               andThen (queryReceipts e s userId 15) (\<lambda>docs.
                 let recentHistory = join nl (historyLines docs) in
                 andThen (getMemoryDoc e s userId) (\<lambda>memoryDoc.
                   andThen (callExists memoryDoc) (\<lambda>present.
                     let currentMemory =
                           (case memoryDoc of
                              Some d \<Rightarrow> if present then summary d else ''''
                            | None \<Rightarrow> '''');
                         prompt = curatorPrompt_v2 currentMemory recentHistory
                     in
                     andThen (generateContent e prompt) (\<lambda>newSummary.
                       emit (TxSetMemory userId newSummary)))))))))"

definition updateMemoryOnNewReceipt_v2 :: "env \<Rightarrow> uid \<Rightarrow> store \<Rightarrow> unit eff \<times> store" where
  "updateMemoryOnNewReceipt_v2 e userId s = runTransaction e s (updateBody_v2 e s userId)"

subsection \<open>\<^verbatim>\<open>updateMemoryOnNewReceipt\<close>, third revision (part_000, lines 232-283)\<close>

definition curatorPrompt_v3 :: "string \<Rightarrow> string \<Rightarrow> string" where
  "curatorPrompt_v3 currentMemory recentHistory = join nl
     [''You are an intelligent memory archivist. Your task is to'',
      ''update the user's long-term memory summary. Here is the current summary and a'',
      ''list of their recent journal entries. Synthesize the new entries into the'',
      ''existing summary, creating a new, cohesive narrative. Intelligently integrate'',
      ''new facts, remove outdated or trivial details, and identify evolving themes.'',
      ''The final summary should be a concise, high-level overview of the user's'',
      ''current life, under 2000 characters. Output only the updated summary.'',
      '''',
      ''CURRENT SUMMARY:'',
      orElse currentMemory ''No summary yet.'',
      '''',
      ''NEW ENTRIES:'',
      recentHistory]"

definition updateBody_v3 :: "env \<Rightarrow> store \<Rightarrow> uid \<Rightarrow> unit eff" where
  "updateBody_v3 e s userId =
     andThen (txGetUser e s userId) (\<lambda>userDoc.
       let currentCount =
             (case userDoc of Some d \<Rightarrow> orZero (numberField (receiptCount d)) | None \<Rightarrow> 0);
           newCount = jsAdd currentCount 1
       in
       andThen (emit (TxSetMerge userId newCount)) (\<lambda>_.
         if newCount mod 5 \<noteq> 0 then ret ()
         else
           andThen (queryReceipts e s userId 15) (\<lambda>docs.
             let recentHistory = join nl (historyLines docs) in
             andThen (getMemoryDoc e s userId) (\<lambda>memoryDoc.
               let currentMemory = (case memoryDoc of Some d \<Rightarrow> summary d | None \<Rightarrow> '''');
                   prompt = curatorPrompt_v3 currentMemory recentHistory
               in
               andThen (generateContent e prompt) (\<lambda>newSummary.
                 emit (TxSetMemory userId newSummary))))))"

definition updateMemoryOnNewReceipt_v3 :: "env \<Rightarrow> uid \<Rightarrow> store \<Rightarrow> unit eff \<times> store" where
  "updateMemoryOnNewReceipt_v3 e userId s = runTransaction e s (updateBody_v3 e s userId)"

subsection \<open>Observations on a run\<close>

text \<open>The kind of the \<^verbatim>\<open>HttpsError\<close> a call failed with, if it failed with one.\<close>

definition failureKind :: "'a called \<Rightarrow> error_code option" where
  "failureKind r =
     (case fst r of
        Inl (HttpsError c m) \<Rightarrow> Some c
      | Inl (Uncaught err) \<Rightarrow> None
      | Inr x \<Rightarrow> None)"

text \<open>The prompts handed to the generative backend, in order.\<close>

fun promptsSent :: "event list \<Rightarrow> string list" where
  "promptsSent [] = []"
| "promptsSent (Generate p # evs) = p # promptsSent evs"
| "promptsSent (ev # evs) = promptsSent evs"

text \<open>
  The refresh path of the trigger starts with the query for the last 15 receipts; an
  invocation executed it when that read is among its events.
\<close>

definition refreshExecuted :: "uid \<Rightarrow> event list \<Rightarrow> bool" where
  "refreshExecuted u tr = (DbGet (ReceiptsQuery u 15) \<in> set tr)"

text \<open>
  The persisted counter of a user as the functions read it: a missing document or field
  is 0, a stored integer is the number nearest to it.
\<close>

definition storedCount :: "store \<Rightarrow> uid \<Rightarrow> int" where
  "storedCount s u =
     (case users s u of None \<Rightarrow> 0 | Some d \<Rightarrow> orZero (numberField (receiptCount d)))"

text \<open>
  The texts the two functions of the third revision put into their prompts for a user:
  the summary or the placeholder in \<^verbatim>\<open>getEnhancedReceipt\<close>, the summary or the empty
  string in \<^verbatim>\<open>updateMemoryOnNewReceipt\<close>.
\<close>

definition memorySummaryOf :: "store \<Rightarrow> uid \<Rightarrow> string" where
  "memorySummaryOf s u =
     (case memories s u of Some d \<Rightarrow> summary d | None \<Rightarrow> ''No long-term memory yet.'')"

definition currentMemoryOf :: "store \<Rightarrow> uid \<Rightarrow> string" where
  "currentMemoryOf s u = (case memories s u of Some d \<Rightarrow> summary d | None \<Rightarrow> [])"

text \<open>The \<open>n\<close> most recent receipts of a user, as the query returns them.\<close>

definition lastReceipts :: "store \<Rightarrow> uid \<Rightarrow> nat \<Rightarrow> receipt list" where
  "lastReceipts s u n = take n (orderByTimestampDesc (receipts s u))"

subsection \<open>Sequential creation of receipts\<close>

text \<open>
  A client adds a receipt document; the platform then fires the trigger for it. A run
  creates the receipts of a list one after the other, each with the environment its
  trigger meets, and records for each invocation whether it executed the refresh path.
\<close>

definition createReceipt :: "uid \<Rightarrow> receipt \<Rightarrow> store \<Rightarrow> store" where
  "createReceipt u r s = s\<lparr>receipts := (receipts s)(u := receipts s u @ [r])\<rparr>"

fun createSequentially_v3 ::
  "uid \<Rightarrow> (receipt \<times> env) list \<Rightarrow> store \<Rightarrow> store \<times> bool list" where
  "createSequentially_v3 u [] s = (s, [])"
| "createSequentially_v3 u ((r, e) # cs) s =
     (case updateMemoryOnNewReceipt_v3 e u (createReceipt u r s) of
        ((res, tr), s') \<Rightarrow>
          (case createSequentially_v3 u cs s' of
             (s'', flags) \<Rightarrow> (s'', refreshExecuted u tr # flags)))"

definition refreshes :: "bool list \<Rightarrow> nat" where
  "refreshes flags = length (filter (\<lambda>b. b) flags)"

subsection \<open>Sample inputs\<close>

definition okEnv :: env where
  "okEnv = \<lparr>now = 7,
            generate = (\<lambda>p. Inr ''Runs most mornings.''),
            generateMessage = (\<lambda>p. Inr [''A fine run.'']),
            faulty = (\<lambda>r. False)\<rparr>"

definition failingEnv :: env where
  "failingEnv = \<lparr>now = 7,
                 generate = (\<lambda>p. Inl (ProviderError ''quota exceeded'')),
                 generateMessage = (\<lambda>p. Inl (ProviderError ''quota exceeded'')),
                 faulty = (\<lambda>r. False)\<rparr>"

definition emptyStore :: store where
  "emptyStore = \<lparr>users = Map.empty, memories = Map.empty, receipts = (\<lambda>u. [])\<rparr>"

definition threeReceipts :: "receipt list" where
  "threeReceipts =
     [\<lparr>message = ''ran 5k'', timestamp = 10\<rparr>,
      \<lparr>message = ''slept late'', timestamp = 30\<rparr>,
      \<lparr>message = ''made soup'', timestamp = 20\<rparr>]"

definition storeAtFour :: store where
  "storeAtFour =
     \<lparr>users = [''u'' \<mapsto> \<lparr>receiptCount = Some 4\<rparr>],
      memories = Map.empty,
      receipts = (\<lambda>u. threeReceipts)\<rparr>"

definition sevenCreations :: "(receipt \<times> env) list" where
  "sevenCreations = map (\<lambda>i. (\<lparr>message = ''note'', timestamp = i\<rparr>, okEnv)) [1..<8]"

definition sixFailingCreations :: "(receipt \<times> env) list" where
  "sixFailingCreations = map (\<lambda>i. (\<lparr>message = ''note'', timestamp = i\<rparr>, failingEnv)) [1..<7]"

definition storeAtLargeCount :: store where
  "storeAtLargeCount =
     \<lparr>users = [''u'' \<mapsto> \<lparr>receiptCount = Some (2 ^ 53 + 2)\<rparr>],
      memories = Map.empty,
      receipts = (\<lambda>u. threeReceipts)\<rparr>"

definition tiedReceipts :: "receipt list" where
  "tiedReceipts =
     [\<lparr>message = ''ran 5k'', timestamp = 10\<rparr>,
      \<lparr>message = ''made soup'', timestamp = 10\<rparr>]"

definition storeWithTies :: store where
  "storeWithTies =
     \<lparr>users = [''u'' \<mapsto> \<lparr>receiptCount = Some 2\<rparr>],
      memories = Map.empty,
      receipts = (\<lambda>u. tiedReceipts)\<rparr>"

definition storeWithMemory :: store where
  "storeWithMemory =
     \<lparr>users = [''u'' \<mapsto> \<lparr>receiptCount = Some 4\<rparr>],
      memories = [''u'' \<mapsto> \<lparr>summary = ''Training for a marathon.'', lastUpdated = 3\<rparr>],
      receipts = (\<lambda>u. threeReceipts)\<rparr>"

section \<open>Properties\<close>

subsection \<open>Effects\<close>

lemma andThen_Inl [simp]: "andThen (Inl e, tr) f = (Inl e, tr)"
  by (simp add: andThen_def)

lemma andThen_Inr [simp]: "andThen (Inr x, tr) f = (fst (f x), tr @ snd (f x))"
  by (simp add: andThen_def split: prod.splits)

lemma andThen_throw [simp]: "andThen (throw e) f = (Inl e, [])"
  by (simp add: throw_def)

lemma andThen_emit [simp]: "andThen (emit ev) f = (fst (f ()), ev # snd (f ()))"
  by (simp add: emit_def)

subsection \<open>What each function body does\<close>

lemma enhanceBody_v3_eq:
  "enhanceBody_v3 e s u raw =
    (if faulty e (MemoryRef u) then (Inl Unavailable, [DbGet (MemoryRef u)])
     else if faulty e (ReceiptsQuery u 3) then
       (Inl Unavailable, [DbGet (MemoryRef u), DbGet (ReceiptsQuery u 3)])
     else
       (case generate e (enhancePrompt_v3 (memorySummaryOf s u)
                           (join nl (contextLines (lastReceipts s u 3))) raw) of
          Inl err \<Rightarrow> Inl err
        | Inr t \<Rightarrow> Inr \<lparr>reply_text = t\<rparr>,
        [DbGet (MemoryRef u), DbGet (ReceiptsQuery u 3),
         Generate (enhancePrompt_v3 (memorySummaryOf s u)
                     (join nl (contextLines (lastReceipts s u 3))) raw)]))"
  by (simp add: enhanceBody_v3_def getMemoryDoc_def queryReceipts_def generateContent_def
      ret_def memorySummaryOf_def lastReceipts_def Let_def split: sum.splits option.splits)

lemma enhanceBody_v1_eq:
  "enhanceBody_v1 e s u raw =
    (if faulty e (ReceiptsQuery u 3) then (Inl Unavailable, [DbGet (ReceiptsQuery u 3)])
     else
       (case generateMessage e
               (enhancePrompt_v1 (join nl (contextLines (lastReceipts s u 3))) raw) of
          Inl err \<Rightarrow> Inl err
        | Inr [] \<Rightarrow> Inl TypeError
        | Inr (c # cs) \<Rightarrow> Inr \<lparr>reply_text = c\<rparr>,
        [DbGet (ReceiptsQuery u 3),
         Generate (enhancePrompt_v1 (join nl (contextLines (lastReceipts s u 3))) raw)]))"
  by (simp add: enhanceBody_v1_def queryReceipts_def generateMessageCall_def firstCandidate_def
      ret_def throw_def lastReceipts_def Let_def split: sum.splits list.splits)

lemma enhanceBody_v2_eq:
  "enhanceBody_v2 e s u raw =
    (if faulty e (MemoryRef u) then Inl Unavailable else Inl TypeError, [DbGet (MemoryRef u)])"
  by (simp add: enhanceBody_v2_def getMemoryDoc_def callExists_def)

lemma updateBody_v3_eq:
  "updateBody_v3 e s u =
    (if faulty e (UserRef u) then (Inl Unavailable, [TxGet (UserRef u)])
     else if (jsAdd (storedCount s u) 1) mod 5 \<noteq> 0 then
       (Inr (), [TxGet (UserRef u), TxSetMerge u (jsAdd (storedCount s u) 1)])
     else if faulty e (ReceiptsQuery u 15) then
       (Inl Unavailable,
        [TxGet (UserRef u), TxSetMerge u (jsAdd (storedCount s u) 1), DbGet (ReceiptsQuery u 15)])
     else if faulty e (MemoryRef u) then
       (Inl Unavailable,
        [TxGet (UserRef u), TxSetMerge u (jsAdd (storedCount s u) 1), DbGet (ReceiptsQuery u 15),
         DbGet (MemoryRef u)])
     else
       (case generate e (curatorPrompt_v3 (currentMemoryOf s u)
                           (join nl (historyLines (lastReceipts s u 15)))) of
          Inl err \<Rightarrow>
            (Inl err,
             [TxGet (UserRef u), TxSetMerge u (jsAdd (storedCount s u) 1), DbGet (ReceiptsQuery u 15),
              DbGet (MemoryRef u),
              Generate (curatorPrompt_v3 (currentMemoryOf s u)
                          (join nl (historyLines (lastReceipts s u 15))))])
        | Inr t \<Rightarrow>
            (Inr (),
             [TxGet (UserRef u), TxSetMerge u (jsAdd (storedCount s u) 1), DbGet (ReceiptsQuery u 15),
              DbGet (MemoryRef u),
              Generate (curatorPrompt_v3 (currentMemoryOf s u)
                          (join nl (historyLines (lastReceipts s u 15)))),
              TxSetMemory u t])))"
  by (simp add: updateBody_v3_def txGetUser_def getMemoryDoc_def queryReceipts_def
      generateContent_def ret_def emit_def storedCount_def currentMemoryOf_def lastReceipts_def
      Let_def split: sum.splits option.splits)

lemma updateBody_v2_eq:
  "updateBody_v2 e s u =
    (if faulty e (UserRef u) then (Inl Unavailable, [TxGet (UserRef u)])
     else if users s u = None then (Inl TypeError, [TxGet (UserRef u)])
     else if (jsAdd (storedCount s u) 1) mod 5 \<noteq> 0 then
       (Inr (), [TxGet (UserRef u), TxUpdate u (jsAdd (storedCount s u) 1)])
     else if faulty e (ReceiptsQuery u 15) then
       (Inl Unavailable,
        [TxGet (UserRef u), TxUpdate u (jsAdd (storedCount s u) 1), LogInfo u (jsAdd (storedCount s u) 1),
         DbGet (ReceiptsQuery u 15)])
     else
       (if faulty e (MemoryRef u) then Inl Unavailable else Inl TypeError,
        [TxGet (UserRef u), TxUpdate u (jsAdd (storedCount s u) 1), LogInfo u (jsAdd (storedCount s u) 1),
         DbGet (ReceiptsQuery u 15), DbGet (MemoryRef u)]))"
  by (simp add: updateBody_v2_def txGetUser_def getMemoryDoc_def queryReceipts_def
      dataReceiptCount_def callExists_def ret_def throw_def emit_def storedCount_def
      Let_def split: sum.splits option.splits)

subsection \<open>Transactions\<close>

lemma runTransaction_rejected:
  "fst (fst (runTransaction e s body)) = Inl err \<Longrightarrow> snd (runTransaction e s body) = s"
  by (cases body) (auto simp: runTransaction_def split: sum.splits option.splits)

lemma runTransaction_events: "snd (fst (runTransaction e s body)) = snd body"
  by (cases body) (auto simp: runTransaction_def split: sum.splits option.splits)

lemma updateMemoryOnNewReceipt_v3_plain:
  assumes "\<not> faulty e (UserRef u)" and "(jsAdd (storedCount s u) 1) mod 5 \<noteq> 0"
  shows "updateMemoryOnNewReceipt_v3 e u s =
           ((Inr (), [TxGet (UserRef u), TxSetMerge u (jsAdd (storedCount s u) 1)]),
            s\<lparr>users := (users s)(u \<mapsto>
                 (case users s u of
                    None \<Rightarrow> \<lparr>receiptCount = Some (jsAdd (storedCount s u) 1)\<rparr>
                  | Some d \<Rightarrow> d\<lparr>receiptCount := Some (jsAdd (storedCount s u) 1)\<rparr>))\<rparr>)"
  using assms
  by (simp add: updateMemoryOnNewReceipt_v3_def updateBody_v3_eq runTransaction_def
      applyWrite_def)

lemma updateMemoryOnNewReceipt_v3_refresh:
  assumes "\<not> faulty e (UserRef u)" and "(jsAdd (storedCount s u) 1) mod 5 = 0"
    and "\<not> faulty e (ReceiptsQuery u 15)" and "\<not> faulty e (MemoryRef u)"
    and "generate e (curatorPrompt_v3 (currentMemoryOf s u)
           (join nl (historyLines (lastReceipts s u 15)))) = Inr t"
  shows "updateMemoryOnNewReceipt_v3 e u s =
           ((Inr (),
             [TxGet (UserRef u), TxSetMerge u (jsAdd (storedCount s u) 1),
              DbGet (ReceiptsQuery u 15), DbGet (MemoryRef u),
              Generate (curatorPrompt_v3 (currentMemoryOf s u)
                          (join nl (historyLines (lastReceipts s u 15)))),
              TxSetMemory u t]),
            s\<lparr>users := (users s)(u \<mapsto>
                 (case users s u of
                    None \<Rightarrow> \<lparr>receiptCount = Some (jsAdd (storedCount s u) 1)\<rparr>
                  | Some d \<Rightarrow> d\<lparr>receiptCount := Some (jsAdd (storedCount s u) 1)\<rparr>)),
              memories := (memories s)(u \<mapsto> \<lparr>summary = t, lastUpdated = now e\<rparr>)\<rparr>)"
  using assms
  by (simp add: updateMemoryOnNewReceipt_v3_def updateBody_v3_eq runTransaction_def
      applyWrite_def)

lemma updateMemoryOnNewReceipt_v3_generate_fails:
  assumes "\<not> faulty e (UserRef u)" and "(jsAdd (storedCount s u) 1) mod 5 = 0"
    and "\<not> faulty e (ReceiptsQuery u 15)" and "\<not> faulty e (MemoryRef u)"
    and "generate e (curatorPrompt_v3 (currentMemoryOf s u)
           (join nl (historyLines (lastReceipts s u 15)))) = Inl err"
  shows "updateMemoryOnNewReceipt_v3 e u s =
           ((Inl err,
             [TxGet (UserRef u), TxSetMerge u (jsAdd (storedCount s u) 1),
              DbGet (ReceiptsQuery u 15), DbGet (MemoryRef u),
              Generate (curatorPrompt_v3 (currentMemoryOf s u)
                          (join nl (historyLines (lastReceipts s u 15))))]),
            s)"
  using assms
  by (simp add: updateMemoryOnNewReceipt_v3_def updateBody_v3_eq runTransaction_def)

subsection \<open>Numbers\<close>

lemma bitLength_le: "n < 2 ^ k \<Longrightarrow> bitLength n \<le> k"
proof (induction k arbitrary: n)
  case 0
  then show ?case by simp
next
  case (Suc k)
  show ?case
  proof (cases "n \<le> 0")
    case True
    then show ?thesis by simp
  next
    case False
    from Suc.prems have "n div 2 < 2 ^ k" by simp
    from Suc.IH[OF this] False show ?thesis by simp
  qed
qed

lemma roundToDouble_exact: "m < 2 ^ 53 \<Longrightarrow> roundToDouble m = m"
  using bitLength_le[of m 53] by (simp add: roundToDouble_def)

lemma jsNumber_exact: "- (2 ^ 53) < x \<Longrightarrow> x < 2 ^ 53 \<Longrightarrow> jsNumber x = x"
  by (simp add: jsNumber_def roundToDouble_exact)

lemma jsAdd_exact: "- (2 ^ 53) < a + b \<Longrightarrow> a + b < 2 ^ 53 \<Longrightarrow> jsAdd a b = a + b"
  by (simp add: jsAdd_def jsNumber_exact)

lemma jsAdd_large: "jsAdd (2 ^ 53 + 2) 1 = 2 ^ 53 + 4"
  by code_simp

subsection \<open>Sequential creations\<close>

lemma storedCount_createReceipt: "storedCount (createReceipt u r s) v = storedCount s v"
  by (simp add: storedCount_def createReceipt_def)

lemma storedCount_written:
  assumes "- (2 ^ 53) < n" and "n < 2 ^ 53"
  shows "storedCount (s\<lparr>users := (users s)(u \<mapsto>
       (case users s u of None \<Rightarrow> \<lparr>receiptCount = Some n\<rparr>
        | Some d \<Rightarrow> d\<lparr>receiptCount := Some n\<rparr>))\<rparr>) u = n"
    and "storedCount (s\<lparr>users := (users s)(u \<mapsto>
       (case users s u of None \<Rightarrow> \<lparr>receiptCount = Some n\<rparr>
        | Some d \<Rightarrow> d\<lparr>receiptCount := Some n\<rparr>)), memories := m\<rparr>) u = n"
  using assms
  by (simp_all add: storedCount_def numberField_def orZero_def jsNumber_exact
      split: option.splits)

lemma healthy_step_v3:
  assumes "\<not> faulty e (UserRef u)" and "\<not> faulty e (ReceiptsQuery u 15)"
    and "\<not> faulty e (MemoryRef u)" and "\<forall>p. \<exists>t. generate e p = Inr t"
    and "- (2 ^ 53) < storedCount s u + 1" and "storedCount s u + 1 < 2 ^ 53"
  shows "fst (fst (updateMemoryOnNewReceipt_v3 e u s)) = Inr ()"
    and "storedCount (snd (updateMemoryOnNewReceipt_v3 e u s)) u = storedCount s u + 1"
    and "refreshExecuted u (snd (fst (updateMemoryOnNewReceipt_v3 e u s))) \<longleftrightarrow>
           (storedCount s u + 1) mod 5 = 0"
proof -
  obtain t where t: "generate e (curatorPrompt_v3 (currentMemoryOf s u)
           (join nl (historyLines (lastReceipts s u 15)))) = Inr t"
    using assms(4) by blast
  have n: "jsAdd (storedCount s u) 1 = storedCount s u + 1"
    using assms(5,6) by (rule jsAdd_exact)
  note w = storedCount_written[OF assms(5,6), where s = s and u = u]
  note P = updateMemoryOnNewReceipt_v3_plain[where e = e and u = u and s = s, unfolded n]
  note R = updateMemoryOnNewReceipt_v3_refresh[where e = e and u = u and s = s and t = t,
      unfolded n]
  show "fst (fst (updateMemoryOnNewReceipt_v3 e u s)) = Inr ()"
    using assms(1-3) t
    by (cases "(storedCount s u + 1) mod 5 = 0") (simp_all add: P R)
  show "storedCount (snd (updateMemoryOnNewReceipt_v3 e u s)) u = storedCount s u + 1"
    using assms(1-3) t
    by (cases "(storedCount s u + 1) mod 5 = 0") (simp_all add: P R w)
  show "refreshExecuted u (snd (fst (updateMemoryOnNewReceipt_v3 e u s))) \<longleftrightarrow>
           (storedCount s u + 1) mod 5 = 0"
    using assms(1-3) t
    by (cases "(storedCount s u + 1) mod 5 = 0") (simp_all add: P R refreshExecuted_def)
qed

lemma div5_step: "((c::int) + 1) div 5 = c div 5 + (if (c + 1) mod 5 = 0 then 1 else 0)"
  by presburger

lemma upt_shift: "map f [0..<Suc m] = f 0 # map (\<lambda>i. f (Suc i)) [0..<m]"
proof -
  have "[0..<Suc m] = 0 # map Suc [0..<m]"
    by (simp only: map_Suc_upt upt_conv_Cons[of 0 "Suc m"] zero_less_Suc if_True)
  then show ?thesis by (simp only: list.map map_map o_def)
qed

lemma createSequentially_v3_Cons:
  "createSequentially_v3 u ((r, e) # cs) s =
     (fst (createSequentially_v3 u cs (snd (updateMemoryOnNewReceipt_v3 e u (createReceipt u r s)))),
      refreshExecuted u (snd (fst (updateMemoryOnNewReceipt_v3 e u (createReceipt u r s)))) #
      snd (createSequentially_v3 u cs (snd (updateMemoryOnNewReceipt_v3 e u (createReceipt u r s)))))"
  by (simp split: prod.splits)

lemma createSequentially_v3_run:
  assumes "\<forall>(r, e) \<in> set cs. \<not> faulty e (UserRef u) \<and> \<not> faulty e (ReceiptsQuery u 15) \<and>
             \<not> faulty e (MemoryRef u) \<and> (\<forall>p. \<exists>t. generate e p = Inr t)"
    and "- (2 ^ 53) \<le> storedCount s u" and "storedCount s u + int (length cs) < 2 ^ 53"
  shows "storedCount (fst (createSequentially_v3 u cs s)) u = storedCount s u + int (length cs) \<and>
         snd (createSequentially_v3 u cs s) =
           map (\<lambda>i. (storedCount s u + 1 + int i) mod 5 = 0) [0..<length cs] \<and>
         int (refreshes (snd (createSequentially_v3 u cs s))) =
           (storedCount s u + int (length cs)) div 5 - storedCount s u div 5"
  using assms
proof (induction cs arbitrary: s)
  case Nil
  then show ?case by (simp add: refreshes_def)
next
  case (Cons c cs)
  obtain r e where c: "c = (r, e)" by (cases c)
  define s2 where "s2 = snd (updateMemoryOnNewReceipt_v3 e u (createReceipt u r s))"
  define tr where "tr = snd (fst (updateMemoryOnNewReceipt_v3 e u (createReceipt u r s)))"
  define k where "k = storedCount s u"
  have ok: "\<not> faulty e (UserRef u)" "\<not> faulty e (ReceiptsQuery u 15)"
    "\<not> faulty e (MemoryRef u)" "\<forall>p. \<exists>t. generate e p = Inr t"
    using Cons.prems(1) c by auto
  have lo: "- (2 ^ 53) < storedCount (createReceipt u r s) u + 1"
    and hi: "storedCount (createReceipt u r s) u + 1 < 2 ^ 53"
    using Cons.prems(2,3) by (simp_all add: storedCount_createReceipt)
  have cnt: "storedCount s2 u = k + 1"
    unfolding s2_def k_def
    using healthy_step_v3(2)[OF ok lo hi] by (simp add: storedCount_createReceipt)
  have rf: "refreshExecuted u tr \<longleftrightarrow> (k + 1) mod 5 = 0"
    unfolding tr_def k_def
    using healthy_step_v3(3)[OF ok lo hi] by (simp add: storedCount_createReceipt)
  have rest: "\<forall>(r, e) \<in> set cs. \<not> faulty e (UserRef u) \<and> \<not> faulty e (ReceiptsQuery u 15) \<and>
             \<not> faulty e (MemoryRef u) \<and> (\<forall>p. \<exists>t. generate e p = Inr t)"
    using Cons.prems(1) by simp
  have lo2: "- (2 ^ 53) \<le> storedCount s2 u"
    and hi2: "storedCount s2 u + int (length cs) < 2 ^ 53"
    using Cons.prems(2,3) cnt by (simp_all add: k_def)
  note IH = Cons.IH[OF rest lo2 hi2, unfolded cnt]
  have IH1: "storedCount (fst (createSequentially_v3 u cs s2)) u = k + 1 + int (length cs)"
    using IH by blast
  have IH2: "snd (createSequentially_v3 u cs s2) =
      map (\<lambda>i. (k + 1 + 1 + int i) mod 5 = 0) [0..<length cs]"
    using IH by blast
  have IH3: "int (refreshes (snd (createSequentially_v3 u cs s2))) =
      (k + 1 + int (length cs)) div 5 - (k + 1) div 5"
    using IH by blast
  have unfold: "createSequentially_v3 u (c # cs) s =
      (fst (createSequentially_v3 u cs s2), refreshExecuted u tr # snd (createSequentially_v3 u cs s2))"
    unfolding c s2_def tr_def by (rule createSequentially_v3_Cons)
  have flags: "map (\<lambda>i. (k + 1 + int i) mod 5 = 0) [0..<length (c # cs)] =
      ((k + 1) mod 5 = 0) # map (\<lambda>i. (k + 1 + 1 + int i) mod 5 = 0) [0..<length cs]"
    using upt_shift[of "\<lambda>i. (k + 1 + int i) mod 5 = 0" "length cs"]
    by (simp add: algebra_simps)
  have A: "storedCount (fst (createSequentially_v3 u (c # cs) s)) u = k + int (length (c # cs))"
    unfolding unfold using IH1 by simp
  have B: "snd (createSequentially_v3 u (c # cs) s) =
      map (\<lambda>i. (k + 1 + int i) mod 5 = 0) [0..<length (c # cs)]"
    unfolding unfold flags using IH2 rf by simp
  have C: "int (refreshes (snd (createSequentially_v3 u (c # cs) s))) =
      (k + int (length (c # cs))) div 5 - k div 5"
  proof -
    have "int (refreshes (snd (createSequentially_v3 u (c # cs) s))) =
        (if (k + 1) mod 5 = 0 then 1 else 0) + int (refreshes (snd (createSequentially_v3 u cs s2)))"
      unfolding unfold using rf by (simp add: refreshes_def)
    also have "\<dots> = (if (k + 1) mod 5 = 0 then 1 else 0) + ((k + 1 + int (length cs)) div 5 - (k + 1) div 5)"
      using IH3 by simp
    also have "\<dots> = (k + 1 + int (length cs)) div 5 - k div 5"
      using div5_step[of k] by simp
    finally show ?thesis by (simp add: algebra_simps)
  qed
  show ?case using A B C unfolding k_def by blast
qed

lemma sample_facts:
  "storedCount storeAtFour ''u'' = 4" "\<not> faulty failingEnv r" "\<not> faulty okEnv r"
  "generate failingEnv p = Inl (ProviderError ''quota exceeded'')"
  "generate okEnv p = Inr ''Runs most mornings.''"
  "jsAdd (storedCount storeAtFour ''u'') 1 = 5"
  "storedCount emptyStore ''u'' = 0"
  "jsAdd (storedCount emptyStore ''u'') 1 = 1"
  "jsAdd 4 1 = 5" "jsAdd 0 1 = 1"
proof -
  have four: "storedCount storeAtFour ''u'' = 4"
    by (simp add: storedCount_def storeAtFour_def orZero_def numberField_def jsNumber_exact)
  have zero: "storedCount emptyStore ''u'' = 0"
    by (simp add: storedCount_def emptyStore_def)
  show "storedCount storeAtFour ''u'' = 4" by (rule four)
  show "storedCount emptyStore ''u'' = 0" by (rule zero)
  show "jsAdd (storedCount storeAtFour ''u'') 1 = 5" by (simp add: four jsAdd_exact)
  show "jsAdd (storedCount emptyStore ''u'') 1 = 1" by (simp add: zero jsAdd_exact)
  show "jsAdd 4 1 = 5" "jsAdd 0 1 = 1" by (simp_all add: jsAdd_exact)
qed (simp_all add: failingEnv_def okEnv_def)

subsection \<open>The counter and the refresh over a sequential run\<close>

text \<open>
  C1, as the code has it. In the third revision, over any sequence of receipts created
  one after the other for one user, where every invocation's store reads succeed and
  its generative call answers, and where the counts stay below \<open>2 ^ 53\<close> in magnitude
  (so that adding 1 to the number is exact): the persisted \<open>receiptCount\<close> (a missing
  user document or field counting as 0) grows by exactly 1 per creation; the \<open>i\<close>-th
  invocation executes the refresh path exactly when its new count is a multiple of 5;
  and the number of invocations that executed it is
  \<open>\<lfloor>(c + m) / 5\<rfloor> - \<lfloor>c / 5\<rfloor>\<close> for \<open>m\<close> creations from a count \<open>c\<close>, which is
  \<open>\<lfloor>m / 5\<rfloor>\<close> from 0.
\<close>

theorem sequential_creations_refresh_every_fifth_v3:
  assumes "\<forall>(r, e) \<in> set cs. \<not> faulty e (UserRef u) \<and> \<not> faulty e (ReceiptsQuery u 15) \<and>
             \<not> faulty e (MemoryRef u) \<and> (\<forall>p. \<exists>t. generate e p = Inr t)"
    and "- (2 ^ 53) \<le> storedCount s u" and "storedCount s u + int (length cs) < 2 ^ 53"
  shows "storedCount (fst (createSequentially_v3 u cs s)) u = storedCount s u + int (length cs) \<and>
         snd (createSequentially_v3 u cs s) =
           map (\<lambda>i. (storedCount s u + 1 + int i) mod 5 = 0) [0..<length cs] \<and>
         int (refreshes (snd (createSequentially_v3 u cs s))) =
           (storedCount s u + int (length cs)) div 5 - storedCount s u div 5 \<and>
         (storedCount s u = 0 \<longrightarrow>
            refreshes (snd (createSequentially_v3 u cs s)) = length cs div 5)"
proof -
  note run = createSequentially_v3_run[OF assms]
  have "refreshes (snd (createSequentially_v3 u cs s)) = length cs div 5"
    if "storedCount s u = 0"
  proof -
    have "int (refreshes (snd (createSequentially_v3 u cs s))) = int (length cs) div 5"
      using run[THEN conjunct2, THEN conjunct2] that by simp
    then show ?thesis by (simp add: zdiv_int[symmetric] del: zdiv_int)
  qed
  with run show ?thesis by blast
qed

theorem sequential_creations_refresh_every_fifth_v3_witness:
  "storedCount (fst (createSequentially_v3 ''u'' sevenCreations emptyStore)) ''u'' = 7 \<and>
   snd (createSequentially_v3 ''u'' sevenCreations emptyStore) =
     [False, False, False, False, True, False, False] \<and>
   refreshes (snd (createSequentially_v3 ''u'' sevenCreations emptyStore)) = 1"
proof -
  have h: "\<forall>(r, e) \<in> set sevenCreations. \<not> faulty e (UserRef ''u'') \<and>
      \<not> faulty e (ReceiptsQuery ''u'' 15) \<and> \<not> faulty e (MemoryRef ''u'') \<and>
      (\<forall>p. \<exists>t. generate e p = Inr t)"
    by (simp add: sevenCreations_def okEnv_def)
  have c0: "storedCount emptyStore ''u'' = 0"
    by (simp add: storedCount_def emptyStore_def)
  have len: "length sevenCreations = 7"
    by (simp add: sevenCreations_def)
  have lo: "- (2 ^ 53) \<le> storedCount emptyStore ''u''"
    and hi: "storedCount emptyStore ''u'' + int (length sevenCreations) < 2 ^ 53"
    by (simp_all add: c0 len)
  have up: "[0..<7] = [0, 1, 2, 3, 4, 5, 6::nat]"
    by code_simp
  show ?thesis
    using sequential_creations_refresh_every_fifth_v3[OF h lo hi]
    by (simp add: c0 len up refreshes_def)
qed

text \<open>
  C1 as stated speaks of every sequence. With a backend that fails, the fifth
  invocation executes the refresh path, its transaction is rejected and the counter
  stays at 4; the sixth invocation computes 5 again and executes the refresh path a
  second time. After six creations the counter is 4, not 6, and the refresh path ran
  twice, not once.
\<close>

theorem failing_backend_stalls_counter_v3:
  "\<not> (storedCount (fst (createSequentially_v3 ''u'' sixFailingCreations emptyStore)) ''u'' =
        storedCount emptyStore ''u'' + int (length sixFailingCreations)) \<and>
   \<not> (refreshes (snd (createSequentially_v3 ''u'' sixFailingCreations emptyStore)) =
        length sixFailingCreations div 5) \<and>
   storedCount (fst (createSequentially_v3 ''u'' sixFailingCreations emptyStore)) ''u'' = 4 \<and>
   snd (createSequentially_v3 ''u'' sixFailingCreations emptyStore) =
     [False, False, False, False, True, True]"
  by code_simp

text \<open>
  Beyond \<open>2 ^ 53\<close> the sum is rounded: from a stored \<open>2 ^ 53 + 2\<close> the new count is
  \<open>2 ^ 53 + 4\<close>, not the multiple of 5 between them, and the invocation returns without
  a refresh.
\<close>

lemma large_count_rounds_v3:
  "storedCount storeAtLargeCount ''u'' = 2 ^ 53 + 2 \<and>
   (storedCount storeAtLargeCount ''u'' + 1) mod 5 = 0 \<and>
   fst (updateMemoryOnNewReceipt_v3 okEnv ''u'' storeAtLargeCount) =
     (Inr (), [TxGet (UserRef ''u''), TxSetMerge ''u'' (2 ^ 53 + 4)])"
  by code_simp

subsection \<open>A failed generative call\<close>

text \<open>
  C3. If the generative call made inside the trigger fails, the transaction is rejected
  with that failure and the store after the invocation is the store before it: neither
  the counter write nor a summary write is applied. More generally, whenever the trigger
  of the second or the third revision fails, the store is unchanged.
\<close>

theorem failed_generation_rolls_back:
  "(Generate p \<in> set (snd (fst (updateMemoryOnNewReceipt_v3 e u s))) \<and> generate e p = Inl err
      \<longrightarrow> fst (fst (updateMemoryOnNewReceipt_v3 e u s)) = Inl err \<and>
          snd (updateMemoryOnNewReceipt_v3 e u s) = s) \<and>
   (fst (fst (updateMemoryOnNewReceipt_v3 e u s)) = Inl err
      \<longrightarrow> snd (updateMemoryOnNewReceipt_v3 e u s) = s) \<and>
   (fst (fst (updateMemoryOnNewReceipt_v2 e u s)) = Inl err
      \<longrightarrow> snd (updateMemoryOnNewReceipt_v2 e u s) = s)"
proof -
  have gen: "fst (fst (updateMemoryOnNewReceipt_v3 e u s)) = Inl err \<and>
             snd (updateMemoryOnNewReceipt_v3 e u s) = s"
    if a: "Generate p \<in> set (snd (fst (updateMemoryOnNewReceipt_v3 e u s))) \<and>
           generate e p = Inl err"
  proof -
    from a have "Generate p \<in> set (snd (updateBody_v3 e s u))"
      by (simp add: updateMemoryOnNewReceipt_v3_def runTransaction_events)
    with a have "fst (updateBody_v3 e s u) = Inl err"
      by (auto simp: updateBody_v3_eq split: if_splits sum.splits)
    then show ?thesis
      by (cases "updateBody_v3 e s u")
         (simp add: updateMemoryOnNewReceipt_v3_def runTransaction_def)
  qed
  have v3: "snd (updateMemoryOnNewReceipt_v3 e u s) = s"
    if "fst (fst (updateMemoryOnNewReceipt_v3 e u s)) = Inl err"
    using that unfolding updateMemoryOnNewReceipt_v3_def by (rule runTransaction_rejected)
  have v2: "snd (updateMemoryOnNewReceipt_v2 e u s) = s"
    if "fst (fst (updateMemoryOnNewReceipt_v2 e u s)) = Inl err"
    using that unfolding updateMemoryOnNewReceipt_v2_def by (rule runTransaction_rejected)
  from gen v3 v2 show ?thesis by blast
qed

theorem failed_generation_rolls_back_witness:
  "fst (fst (updateMemoryOnNewReceipt_v3 failingEnv ''u'' storeAtFour)) =
     Inl (ProviderError ''quota exceeded'') \<and>
   snd (updateMemoryOnNewReceipt_v3 failingEnv ''u'' storeAtFour) = storeAtFour \<and>
   promptsSent (snd (fst (updateMemoryOnNewReceipt_v3 failingEnv ''u'' storeAtFour))) =
     [curatorPrompt_v3 [] (join nl [''- ran 5k'', ''- made soup'', ''- slept late''])]"
proof -
  let ?p = "curatorPrompt_v3 (currentMemoryOf storeAtFour ''u'')
              (join nl (historyLines (lastReceipts storeAtFour ''u'' 15)))"
  have run: "updateMemoryOnNewReceipt_v3 failingEnv ''u'' storeAtFour =
      ((Inl (ProviderError ''quota exceeded''),
        [TxGet (UserRef ''u''), TxSetMerge ''u'' (jsAdd (storedCount storeAtFour ''u'') 1),
         DbGet (ReceiptsQuery ''u'' 15), DbGet (MemoryRef ''u''), Generate ?p]), storeAtFour)"
    by (rule updateMemoryOnNewReceipt_v3_generate_fails) (simp_all add: sample_facts)
  have sent: "Generate ?p \<in> set (snd (fst (updateMemoryOnNewReceipt_v3 failingEnv ''u'' storeAtFour)))"
    by (simp add: run)
  have p: "?p = curatorPrompt_v3 [] (join nl [''- ran 5k'', ''- made soup'', ''- slept late''])"
    by code_simp
  have main: "fst (fst (updateMemoryOnNewReceipt_v3 failingEnv ''u'' storeAtFour)) =
      Inl (ProviderError ''quota exceeded'') \<and>
    snd (updateMemoryOnNewReceipt_v3 failingEnv ''u'' storeAtFour) = storeAtFour"
    using failed_generation_rolls_back[of ?p failingEnv "''u''" storeAtFour
        "ProviderError ''quota exceeded''"] sent
    by (simp add: sample_facts)
  have prompts: "promptsSent (snd (fst (updateMemoryOnNewReceipt_v3 failingEnv ''u'' storeAtFour))) =
      [?p]"
    by (simp add: run)
  from main prompts show ?thesis unfolding p by blast
qed


subsection \<open>The callable \<^verbatim>\<open>getEnhancedReceipt\<close>: failure kinds\<close>

lemma getEnhancedReceipt_v3_body:
  "auth ctx = Some u \<Longrightarrow> dat = Some \<lparr>data_text = Some raw\<rparr> \<Longrightarrow> raw \<noteq> [] \<Longrightarrow>
   getEnhancedReceipt_v3 e ctx dat s = catchInternal ''AI Scribe failed.'' (enhanceBody_v3 e s u raw)"
  by (simp add: getEnhancedReceipt_v3_def)

lemma getEnhancedReceipt_v1_body:
  "auth ctx = Some u \<Longrightarrow> dat = Some \<lparr>data_text = Some raw\<rparr> \<Longrightarrow> raw \<noteq> [] \<Longrightarrow>
   getEnhancedReceipt_v1 e ctx dat s =
     catchInternal ''Failed to get a response from the AI Scribe.'' (enhanceBody_v1 e s u raw)"
  by (simp add: getEnhancedReceipt_v1_def)

lemma sample_backend_facts:
  "generateMessage failingEnv p = Inl (ProviderError ''quota exceeded'')"
  "generateMessage okEnv p = Inr [''A fine run.'']"
  by (simp_all add: failingEnv_def okEnv_def)

text \<open>
  C10. In every revision the authentication check comes first: a call without caller
  identity fails with \<open>Unauthenticated\<close> whatever its data is (no payload, an absent
  and an empty \<open>text\<close> included), never with \<open>InvalidArgument\<close>, and before any read of
  the store or call of the backend (the event list is empty).
\<close>

theorem unauthenticated_before_validation:
  "auth ctx = None \<Longrightarrow>
     getEnhancedReceipt_v1 e ctx dat s =
       (Inl (HttpsError Unauthenticated ''You must be logged in to use the AI Scribe.''), []) \<and>
     getEnhancedReceipt_v2 e ctx dat s =
       (Inl (HttpsError Unauthenticated ''You must be logged in to use the AI Scribe.''), []) \<and>
     getEnhancedReceipt_v3 e ctx dat s =
       (Inl (HttpsError Unauthenticated ''Auth required.''), []) \<and>
     failureKind (getEnhancedReceipt_v1 e ctx dat s) = Some Unauthenticated \<and>
     failureKind (getEnhancedReceipt_v2 e ctx dat s) = Some Unauthenticated \<and>
     failureKind (getEnhancedReceipt_v3 e ctx dat s) = Some Unauthenticated"
  by (simp add: getEnhancedReceipt_v1_def getEnhancedReceipt_v2_def getEnhancedReceipt_v3_def
      failureKind_def)

theorem unauthenticated_before_validation_witness:
  "failureKind (getEnhancedReceipt_v1 okEnv \<lparr>auth = None\<rparr> (Some \<lparr>data_text = None\<rparr>) emptyStore) =
     Some Unauthenticated \<and>
   failureKind (getEnhancedReceipt_v3 okEnv \<lparr>auth = None\<rparr> (Some \<lparr>data_text = None\<rparr>) emptyStore) =
     Some Unauthenticated \<and>
   failureKind (getEnhancedReceipt_v3 okEnv \<lparr>auth = None\<rparr> (Some \<lparr>data_text = Some []\<rparr>) emptyStore) =
     Some Unauthenticated \<and>
   failureKind (getEnhancedReceipt_v3 okEnv \<lparr>auth = None\<rparr> (Some \<lparr>data_text = None\<rparr>) emptyStore) \<noteq>
     Some InvalidArgument \<and>
   failureKind (getEnhancedReceipt_v1 okEnv \<lparr>auth = None\<rparr> None emptyStore) =
     Some Unauthenticated \<and>
   failureKind (getEnhancedReceipt_v3 okEnv \<lparr>auth = None\<rparr> None emptyStore) =
     Some Unauthenticated"
  using unauthenticated_before_validation[of "\<lparr>auth = None\<rparr>" okEnv None emptyStore]
    unauthenticated_before_validation[of "\<lparr>auth = None\<rparr>" okEnv "Some \<lparr>data_text = None\<rparr>" emptyStore]
    unauthenticated_before_validation[of "\<lparr>auth = None\<rparr>" okEnv "Some \<lparr>data_text = Some []\<rparr>" emptyStore]
  by (simp add: failureKind_def)

text \<open>
  C9, as the code has it, for the first and the third revision. A call without caller
  identity fails with \<open>Unauthenticated\<close>. An authenticated call that carries a data
  object whose \<open>text\<close> is absent or empty fails with \<open>InvalidArgument\<close>. An authenticated
  call with a non-empty text on which a store read faults, the backend fails or (first
  revision) answers without a candidate fails with \<open>Internal\<close> and the revision's fixed
  message, whatever the fault was. Otherwise the call returns the backend's text as it
  is, after sending exactly one prompt.
\<close>

theorem getEnhancedReceipt_failures:
  fixes s :: store and u :: uid and raw :: string and P1 P3 :: string
  defines "P1 \<equiv> enhancePrompt_v1 (join nl (contextLines (lastReceipts s u 3))) raw"
    and "P3 \<equiv> enhancePrompt_v3 (memorySummaryOf s u)
                  (join nl (contextLines (lastReceipts s u 3))) raw"
  shows
    "(auth ctx = None \<longrightarrow>
        failureKind (getEnhancedReceipt_v1 e ctx dat s) = Some Unauthenticated \<and>
        failureKind (getEnhancedReceipt_v3 e ctx dat s) = Some Unauthenticated) \<and>
     (auth ctx = Some u \<and> (dat = Some \<lparr>data_text = None\<rparr> \<or> dat = Some \<lparr>data_text = Some []\<rparr>) \<longrightarrow>
        failureKind (getEnhancedReceipt_v1 e ctx dat s) = Some InvalidArgument \<and>
        failureKind (getEnhancedReceipt_v3 e ctx dat s) = Some InvalidArgument) \<and>
     (auth ctx = Some u \<and> dat = Some \<lparr>data_text = Some raw\<rparr> \<and> raw \<noteq> [] \<and>
      (faulty e (ReceiptsQuery u 3) \<or> generateMessage e P1 = Inl err \<or>
       generateMessage e P1 = Inr []) \<longrightarrow>
        fst (getEnhancedReceipt_v1 e ctx dat s) =
          Inl (HttpsError Internal ''Failed to get a response from the AI Scribe.'')) \<and>
     (auth ctx = Some u \<and> dat = Some \<lparr>data_text = Some raw\<rparr> \<and> raw \<noteq> [] \<and>
      \<not> faulty e (ReceiptsQuery u 3) \<and> generateMessage e P1 = Inr (t # ts) \<longrightarrow>
        fst (getEnhancedReceipt_v1 e ctx dat s) = Inr \<lparr>reply_text = t\<rparr> \<and>
        promptsSent (snd (getEnhancedReceipt_v1 e ctx dat s)) = [P1]) \<and>
     (auth ctx = Some u \<and> dat = Some \<lparr>data_text = Some raw\<rparr> \<and> raw \<noteq> [] \<and>
      (faulty e (MemoryRef u) \<or> faulty e (ReceiptsQuery u 3) \<or> generate e P3 = Inl err) \<longrightarrow>
        fst (getEnhancedReceipt_v3 e ctx dat s) = Inl (HttpsError Internal ''AI Scribe failed.'')) \<and>
     (auth ctx = Some u \<and> dat = Some \<lparr>data_text = Some raw\<rparr> \<and> raw \<noteq> [] \<and>
      \<not> faulty e (MemoryRef u) \<and> \<not> faulty e (ReceiptsQuery u 3) \<and> generate e P3 = Inr t \<longrightarrow>
        fst (getEnhancedReceipt_v3 e ctx dat s) = Inr \<lparr>reply_text = t\<rparr> \<and>
        promptsSent (snd (getEnhancedReceipt_v3 e ctx dat s)) = [P3])"
proof -
  have unauth: "failureKind (getEnhancedReceipt_v1 e ctx dat s) = Some Unauthenticated \<and>
      failureKind (getEnhancedReceipt_v3 e ctx dat s) = Some Unauthenticated"
    if "auth ctx = None"
    using that
    by (simp add: getEnhancedReceipt_v1_def getEnhancedReceipt_v3_def failureKind_def)
  have invalid: "failureKind (getEnhancedReceipt_v1 e ctx dat s) = Some InvalidArgument \<and>
      failureKind (getEnhancedReceipt_v3 e ctx dat s) = Some InvalidArgument"
    if "auth ctx = Some u \<and> (dat = Some \<lparr>data_text = None\<rparr> \<or> dat = Some \<lparr>data_text = Some []\<rparr>)"
    using that
    by (auto simp: getEnhancedReceipt_v1_def getEnhancedReceipt_v3_def failureKind_def)
  have internal1: "fst (getEnhancedReceipt_v1 e ctx dat s) =
          Inl (HttpsError Internal ''Failed to get a response from the AI Scribe.'')"
    if "auth ctx = Some u \<and> dat = Some \<lparr>data_text = Some raw\<rparr> \<and> raw \<noteq> [] \<and>
      (faulty e (ReceiptsQuery u 3) \<or> generateMessage e P1 = Inl err \<or>
       generateMessage e P1 = Inr [])"
    using that unfolding P1_def
    by (auto simp: getEnhancedReceipt_v1_body enhanceBody_v1_eq catchInternal_def)
  have ok1: "fst (getEnhancedReceipt_v1 e ctx dat s) = Inr \<lparr>reply_text = t\<rparr> \<and>
        promptsSent (snd (getEnhancedReceipt_v1 e ctx dat s)) = [P1]"
    if "auth ctx = Some u \<and> dat = Some \<lparr>data_text = Some raw\<rparr> \<and> raw \<noteq> [] \<and>
      \<not> faulty e (ReceiptsQuery u 3) \<and> generateMessage e P1 = Inr (t # ts)"
    using that unfolding P1_def
    by (auto simp: getEnhancedReceipt_v1_body enhanceBody_v1_eq catchInternal_def)
  have internal3: "fst (getEnhancedReceipt_v3 e ctx dat s) =
          Inl (HttpsError Internal ''AI Scribe failed.'')"
    if "auth ctx = Some u \<and> dat = Some \<lparr>data_text = Some raw\<rparr> \<and> raw \<noteq> [] \<and>
      (faulty e (MemoryRef u) \<or> faulty e (ReceiptsQuery u 3) \<or> generate e P3 = Inl err)"
    using that unfolding P3_def
    by (auto simp: getEnhancedReceipt_v3_body enhanceBody_v3_eq catchInternal_def)
  have ok3: "fst (getEnhancedReceipt_v3 e ctx dat s) = Inr \<lparr>reply_text = t\<rparr> \<and>
        promptsSent (snd (getEnhancedReceipt_v3 e ctx dat s)) = [P3]"
    if "auth ctx = Some u \<and> dat = Some \<lparr>data_text = Some raw\<rparr> \<and> raw \<noteq> [] \<and>
      \<not> faulty e (MemoryRef u) \<and> \<not> faulty e (ReceiptsQuery u 3) \<and> generate e P3 = Inr t"
    using that unfolding P3_def
    by (auto simp: getEnhancedReceipt_v3_body enhanceBody_v3_eq catchInternal_def)
  from unauth invalid internal1 ok1 internal3 ok3 show ?thesis by blast
qed

theorem getEnhancedReceipt_failures_witness:
  "failureKind (getEnhancedReceipt_v3 okEnv \<lparr>auth = None\<rparr> (Some \<lparr>data_text = Some ''ran 5k''\<rparr>)
      storeWithMemory) = Some Unauthenticated \<and>
   failureKind (getEnhancedReceipt_v3 okEnv \<lparr>auth = Some ''u''\<rparr> (Some \<lparr>data_text = None\<rparr>)
      storeWithMemory) = Some InvalidArgument \<and>
   failureKind (getEnhancedReceipt_v1 okEnv \<lparr>auth = Some ''u''\<rparr> (Some \<lparr>data_text = Some []\<rparr>)
      storeWithMemory) = Some InvalidArgument \<and>
   fst (getEnhancedReceipt_v3 failingEnv \<lparr>auth = Some ''u''\<rparr> (Some \<lparr>data_text = Some ''ran 5k''\<rparr>)
      storeWithMemory) = Inl (HttpsError Internal ''AI Scribe failed.'') \<and>
   fst (getEnhancedReceipt_v1 failingEnv \<lparr>auth = Some ''u''\<rparr> (Some \<lparr>data_text = Some ''ran 5k''\<rparr>)
      storeWithMemory) =
     Inl (HttpsError Internal ''Failed to get a response from the AI Scribe.'') \<and>
   fst (getEnhancedReceipt_v3 okEnv \<lparr>auth = Some ''u''\<rparr> (Some \<lparr>data_text = Some ''ran 5k''\<rparr>)
      storeWithMemory) = Inr \<lparr>reply_text = ''Runs most mornings.''\<rparr> \<and>
   fst (getEnhancedReceipt_v1 okEnv \<lparr>auth = Some ''u''\<rparr> (Some \<lparr>data_text = Some ''ran 5k''\<rparr>)
      storeWithMemory) = Inr \<lparr>reply_text = ''A fine run.''\<rparr>"
  using
    getEnhancedReceipt_failures[where ctx = "\<lparr>auth = None\<rparr>" and e = okEnv and
      dat = "Some \<lparr>data_text = Some ''ran 5k''\<rparr>" and s = storeWithMemory and u = "''u''" and
      raw = "''ran 5k''"]
    getEnhancedReceipt_failures[where ctx = "\<lparr>auth = Some ''u''\<rparr>" and e = okEnv and
      dat = "Some \<lparr>data_text = None\<rparr>" and s = storeWithMemory and u = "''u''" and
      raw = "''ran 5k''"]
    getEnhancedReceipt_failures[where ctx = "\<lparr>auth = Some ''u''\<rparr>" and e = okEnv and
      dat = "Some \<lparr>data_text = Some []\<rparr>" and s = storeWithMemory and u = "''u''" and
      raw = "''ran 5k''"]
    getEnhancedReceipt_failures[where ctx = "\<lparr>auth = Some ''u''\<rparr>" and e = failingEnv and
      dat = "Some \<lparr>data_text = Some ''ran 5k''\<rparr>" and s = storeWithMemory and u = "''u''" and
      raw = "''ran 5k''" and err = "ProviderError ''quota exceeded''"]
    getEnhancedReceipt_failures[where ctx = "\<lparr>auth = Some ''u''\<rparr>" and e = okEnv and
      dat = "Some \<lparr>data_text = Some ''ran 5k''\<rparr>" and s = storeWithMemory and u = "''u''" and
      raw = "''ran 5k''" and t = "''A fine run.''" and ts = "[]"]
    getEnhancedReceipt_failures[where ctx = "\<lparr>auth = Some ''u''\<rparr>" and e = okEnv and
      dat = "Some \<lparr>data_text = Some ''ran 5k''\<rparr>" and s = storeWithMemory and u = "''u''" and
      raw = "''ran 5k''" and t = "''Runs most mornings.''"]
  by (simp add: sample_facts sample_backend_facts)

text \<open>
  C9 as stated speaks of every authenticated call whose text is absent. An authenticated
  call without a payload has no text, and it fails with no \<open>InvalidArgument\<close>: the read
  of \<open>text\<close> from \<^verbatim>\<open>null\<close> throws a \<^verbatim>\<open>TypeError\<close> before the check, outside the \<^verbatim>\<open>try\<close>.
\<close>

theorem call_without_payload_throws:
  "getEnhancedReceipt_v1 okEnv \<lparr>auth = Some ''u''\<rparr> None emptyStore =
     (Inl (Uncaught TypeError), []) \<and>
   getEnhancedReceipt_v3 okEnv \<lparr>auth = Some ''u''\<rparr> None emptyStore =
     (Inl (Uncaught TypeError), []) \<and>
   failureKind (getEnhancedReceipt_v1 okEnv \<lparr>auth = Some ''u''\<rparr> None emptyStore) \<noteq>
     Some InvalidArgument \<and>
   failureKind (getEnhancedReceipt_v3 okEnv \<lparr>auth = Some ''u''\<rparr> None emptyStore) \<noteq>
     Some InvalidArgument"
  by (simp add: getEnhancedReceipt_v1_def getEnhancedReceipt_v3_def failureKind_def)

subsection \<open>The long-term memory in the enhancement prompt\<close>

lemma enhancePrompt_v3_embeds: "sublist m (enhancePrompt_v3 m c r)"
proof -
  have "\<exists>ps ss. enhancePrompt_v3 m c r = ps @ m @ ss"
    by (rule exI[of _ "join nl
          [''You are a personal scribe with a witty, slightly playful,'',
           ''and very human tone. Your goal is to rephrase the user's raw note into a'',
           ''beautifully written, insightful journal entry. The final output must be a'',
           ''single paragraph under 200 characters. Use the following long-term memory'',
           ''and recent entries for deep context, but don't feel obligated to reference'',
           ''them directly. Focus on making the new entry shine.'',
           '''',
           ''LONG-TERM MEMORY:'',
           '''']"],
        rule exI[of _ "nl @ join nl
          ['''', ''RECENT ENTRIES:'', orElse c ''No recent entries.'', '''',
           ''NEW NOTE: \"'' @ r @ ''\"'']"])
       (simp add: enhancePrompt_v3_def)
  then show ?thesis by (simp add: sublist_def)
qed

lemma memories_irrelevant_v1:
  "getEnhancedReceipt_v1 e ctx dat (s\<lparr>memories := m\<rparr>) = getEnhancedReceipt_v1 e ctx dat s"
  by (simp add: getEnhancedReceipt_v1_def enhanceBody_v1_def queryReceipts_def
      split: option.splits)

lemma promptsSent_append: "promptsSent (xs @ ys) = promptsSent xs @ promptsSent ys"
  by (induction xs rule: promptsSent.induct) simp_all

lemma promptsSent_mem: "Generate p \<in> set tr \<longleftrightarrow> p \<in> set (promptsSent tr)"
  by (induction tr rule: promptsSent.induct) auto

lemma call_data_eq: "data_text d = x \<Longrightarrow> d = \<lparr>data_text = x\<rparr>"
  by (cases d) simp

lemma getEnhancedReceipt_v3_sent:
  assumes "Generate p \<in> set (snd (getEnhancedReceipt_v3 e ctx dat s))"
  shows "\<exists>u raw. auth ctx = Some u \<and> dat = Some \<lparr>data_text = Some raw\<rparr> \<and>
     p = enhancePrompt_v3 (memorySummaryOf s u) (join nl (contextLines (lastReceipts s u 3))) raw"
  using assms
  by (auto simp: getEnhancedReceipt_v3_def enhanceBody_v3_eq catchInternal_def
      split: option.splits if_splits sum.splits dest!: call_data_eq)

text \<open>
  C4, as the code has it. In the third revision every prompt that \<^verbatim>\<open>getEnhancedReceipt\<close>
  hands to the backend contains the caller's stored summary text, or the placeholder
  \<^verbatim>\<open>No long-term memory yet.\<close> when the caller has no summary document; and an
  authenticated call with a non-empty text whose two reads succeed sends exactly that
  one prompt. The first revision reads no summary: its result and its events are the
  same whatever summaries the store holds.
\<close>

theorem enhancement_prompt_embeds_memory:
  "(Generate p \<in> set (snd (getEnhancedReceipt_v3 e ctx dat s)) \<longrightarrow>
      (\<exists>u. auth ctx = Some u \<and> sublist (memorySummaryOf s u) p)) \<and>
   (auth ctx = Some u \<and> dat = Some \<lparr>data_text = Some raw\<rparr> \<and> raw \<noteq> [] \<and>
    \<not> faulty e (MemoryRef u) \<and> \<not> faulty e (ReceiptsQuery u 3) \<longrightarrow>
      promptsSent (snd (getEnhancedReceipt_v3 e ctx dat s)) =
        [enhancePrompt_v3 (memorySummaryOf s u)
           (join nl (contextLines (lastReceipts s u 3))) raw]) \<and>
   (memories s u = None \<longrightarrow> memorySummaryOf s u = ''No long-term memory yet.'') \<and>
   (memories s u = Some d \<longrightarrow> memorySummaryOf s u = summary d) \<and>
   getEnhancedReceipt_v1 e ctx dat (s\<lparr>memories := m\<rparr>) = getEnhancedReceipt_v1 e ctx dat s"
proof -
  have a: "\<exists>u. auth ctx = Some u \<and> sublist (memorySummaryOf s u) p"
    if "Generate p \<in> set (snd (getEnhancedReceipt_v3 e ctx dat s))"
    using getEnhancedReceipt_v3_sent[OF that] enhancePrompt_v3_embeds by blast
  have b: "promptsSent (snd (getEnhancedReceipt_v3 e ctx dat s)) =
        [enhancePrompt_v3 (memorySummaryOf s u)
           (join nl (contextLines (lastReceipts s u 3))) raw]"
    if "auth ctx = Some u \<and> dat = Some \<lparr>data_text = Some raw\<rparr> \<and> raw \<noteq> [] \<and>
        \<not> faulty e (MemoryRef u) \<and> \<not> faulty e (ReceiptsQuery u 3)"
    using that
    by (auto simp: getEnhancedReceipt_v3_body enhanceBody_v3_eq catchInternal_def
        promptsSent_append split: sum.splits)
  have c: "memories s u = None \<longrightarrow> memorySummaryOf s u = ''No long-term memory yet.''"
    "memories s u = Some d \<longrightarrow> memorySummaryOf s u = summary d"
    by (simp_all add: memorySummaryOf_def)
  from a b c memories_irrelevant_v1 show ?thesis by blast
qed

theorem enhancement_prompt_embeds_memory_witness:
  "promptsSent (snd (getEnhancedReceipt_v3 okEnv \<lparr>auth = Some ''u''\<rparr>
      (Some \<lparr>data_text = Some ''ran 5k''\<rparr>) storeWithMemory)) =
     [enhancePrompt_v3 (memorySummaryOf storeWithMemory ''u'')
        (join nl (contextLines (lastReceipts storeWithMemory ''u'' 3))) ''ran 5k''] \<and>
   sublist ''Training for a marathon.''
     (enhancePrompt_v3 (memorySummaryOf storeWithMemory ''u'')
        (join nl (contextLines (lastReceipts storeWithMemory ''u'' 3))) ''ran 5k'') \<and>
   memorySummaryOf storeWithMemory ''u'' = ''Training for a marathon.'' \<and>
   memorySummaryOf storeAtFour ''u'' = ''No long-term memory yet.''"
proof -
  define P where "P = enhancePrompt_v3 (memorySummaryOf storeWithMemory ''u'')
        (join nl (contextLines (lastReceipts storeWithMemory ''u'' 3))) ''ran 5k''"
  define run where "run = getEnhancedReceipt_v3 okEnv \<lparr>auth = Some ''u''\<rparr>
      (Some \<lparr>data_text = Some ''ran 5k''\<rparr>) storeWithMemory"
  note A = enhancement_prompt_embeds_memory[where ctx = "\<lparr>auth = Some ''u''\<rparr>" and
      dat = "Some \<lparr>data_text = Some ''ran 5k''\<rparr>" and s = storeWithMemory and e = okEnv and
      u = "''u''" and raw = "''ran 5k''" and p = P and
      d = "\<lparr>summary = ''Training for a marathon.'', lastUpdated = 3\<rparr>",
      folded P_def run_def]
  note B = enhancement_prompt_embeds_memory[where s = storeAtFour and u = "''u''"]
  have sent: "promptsSent (snd run) = [P]"
    using A[THEN conjunct2, THEN conjunct1] by (simp add: sample_facts)
  then have "Generate P \<in> set (snd run)"
    by (simp add: promptsSent_mem)
  with A[THEN conjunct1] have emb: "sublist (memorySummaryOf storeWithMemory ''u'') P"
    by auto
  have m1: "memorySummaryOf storeWithMemory ''u'' = ''Training for a marathon.''"
    using A[THEN conjunct2, THEN conjunct2, THEN conjunct2, THEN conjunct1]
    by (simp add: storeWithMemory_def)
  have m2: "memorySummaryOf storeAtFour ''u'' = ''No long-term memory yet.''"
    using B[THEN conjunct2, THEN conjunct2, THEN conjunct1]
    by (simp add: storeAtFour_def)
  from sent emb m1 m2 show ?thesis
    unfolding P_def run_def by simp
qed

text \<open>
  C4 as stated speaks of every call of the enhancement operation. In the first revision
  (\<^verbatim>\<open>src/functions/index.js\<close>) the caller has a stored summary and the prompt sent does not
  contain it.
\<close>

theorem first_revision_prompt_lacks_memory:
  "promptsSent (snd (getEnhancedReceipt_v1 okEnv \<lparr>auth = Some ''u''\<rparr>
      (Some \<lparr>data_text = Some ''ran 5k''\<rparr>) storeWithMemory)) =
     [enhancePrompt_v1 (join nl [''- ran 5k'', ''- made soup'', ''- slept late'']) ''ran 5k''] \<and>
   memories storeWithMemory ''u'' =
     Some \<lparr>summary = ''Training for a marathon.'', lastUpdated = 3\<rparr> \<and>
   \<not> sublist ''Training for a marathon.''
     (enhancePrompt_v1 (join nl [''- ran 5k'', ''- made soup'', ''- slept late'']) ''ran 5k'')"
  by code_simp

subsection \<open>The order of the entry lines\<close>

lemma rev_lastReceipts:
  "rev (lastReceipts s u n) =
     drop (length (receipts s u) - n) (sort_key timestamp (receipts s u))"
  by (simp add: lastReceipts_def orderByTimestampDesc_def rev_take)

lemma lastReceipts_ascending: "sorted (map timestamp (rev (lastReceipts s u n)))"
  by (simp add: rev_lastReceipts drop_map[symmetric] sorted_wrt_drop)

lemma lastReceipts_strict:
  assumes "distinct (map timestamp (receipts s u))"
  shows "sorted_wrt (<) (map timestamp (rev (lastReceipts s u n)))"
proof -
  have "distinct (map timestamp (sort_key timestamp (receipts s u)))"
    using assms by (simp add: distinct_map)
  then have "distinct (map timestamp (rev (lastReceipts s u n)))"
    by (simp add: rev_lastReceipts drop_map[symmetric])
  with lastReceipts_ascending[of s u n] show ?thesis
    by (simp only: strict_sorted_iff)
qed

lemma length_lastReceipts: "length (lastReceipts s u n) \<le> n"
  by (simp add: lastReceipts_def)

lemma sublist_trans: "sublist xs ys \<Longrightarrow> sublist ys zs \<Longrightarrow> sublist xs zs"
  by (rule sublist_order.order.trans)

lemma sublist_join: "l \<in> set ls \<Longrightarrow> sublist l (join sep ls)"
proof (induction sep ls rule: join.induct)
  case (1 sep)
  then show ?case by simp
next
  case (2 sep x)
  then show ?case by simp
next
  case (3 sep x y ys)
  show ?case
  proof (cases "l = x")
    case True
    then show ?thesis by simp
  next
    case False
    with 3 have "sublist l (join sep (y # ys))" by simp
    moreover have "sublist (join sep (y # ys)) (x @ sep @ join sep (y # ys))"
      using sublist_append_leftI[of "join sep (y # ys)" "x @ sep"] by simp
    ultimately show ?thesis by (simp del: join.simps add: join.simps(3) sublist_trans)
  qed
qed

lemma enhancePrompt_v1_embeds_context: "sublist c (enhancePrompt_v1 c r)"
proof (cases "c = []")
  case True
  then show ?thesis by simp
next
  case False
  have "\<exists>ps ss. enhancePrompt_v1 c r = ps @ c @ ss"
    by (rule exI[of _ "join nl
          [''You are a supportive and insightful biographer.'',
           ''Your task is to take a raw note from a user and expand it into a'',
           ''beautifully written, reflective journal entry of 2-3 sentences.'',
           ''Frame it as a significant moment in their life story.'',
           '''',
           ''Use the following recent entries as context to understand recurring'',
           ''themes or ongoing stories. This context should inform the tone and'',
           ''perspective of your writing, but do not explicitly reference these'',
           ''past entries.'',
           ''CONTEXT of the last few entries:'',
           '''']"],
        rule exI[of _ "nl @ join nl
          ['''', ''Now, based on that context, please rephrase the following NEW NOTE:'',
           ''NEW NOTE: \"'' @ r @ ''\"'']"])
       (simp add: enhancePrompt_v1_def orElse_def False)
  then show ?thesis by (simp add: sublist_def)
qed

lemma enhancePrompt_v3_embeds_context: "sublist c (enhancePrompt_v3 m c r)"
proof (cases "c = []")
  case True
  then show ?thesis by simp
next
  case False
  have "\<exists>ps ss. enhancePrompt_v3 m c r = ps @ c @ ss"
    by (rule exI[of _ "join nl
          [''You are a personal scribe with a witty, slightly playful,'',
           ''and very human tone. Your goal is to rephrase the user's raw note into a'',
           ''beautifully written, insightful journal entry. The final output must be a'',
           ''single paragraph under 200 characters. Use the following long-term memory'',
           ''and recent entries for deep context, but don't feel obligated to reference'',
           ''them directly. Focus on making the new entry shine.'',
           '''',
           ''LONG-TERM MEMORY:'',
           m,
           '''',
           ''RECENT ENTRIES:'',
           '''']"],
        rule exI[of _ "nl @ join nl ['''', ''NEW NOTE: \"'' @ r @ ''\"'']"])
       (simp add: enhancePrompt_v3_def orElse_def False)
  then show ?thesis by (simp add: sublist_def)
qed

lemma curatorPrompt_v3_embeds_history: "sublist h (curatorPrompt_v3 m h)"
proof -
  have "\<exists>ps. curatorPrompt_v3 m h = ps @ h"
    by (rule exI[of _ "join nl
          [''You are an intelligent memory archivist. Your task is to'',
           ''update the user's long-term memory summary. Here is the current summary and a'',
           ''list of their recent journal entries. Synthesize the new entries into the'',
           ''existing summary, creating a new, cohesive narrative. Intelligently integrate'',
           ''new facts, remove outdated or trivial details, and identify evolving themes.'',
           ''The final summary should be a concise, high-level overview of the user's'',
           ''current life, under 2000 characters. Output only the updated summary.'',
           '''',
           ''CURRENT SUMMARY:'',
           orElse m ''No summary yet.'',
           '''',
           ''NEW ENTRIES:'',
           '''']"])
       (simp add: curatorPrompt_v3_def)
  then obtain ps where "curatorPrompt_v3 m h = ps @ h" by blast
  then show ?thesis by simp
qed

lemma entry_line_in_lines:
  "doc \<in> set docs \<Longrightarrow> entryLine doc \<in> set (contextLines docs)"
  "doc \<in> set docs \<Longrightarrow> entryLine doc \<in> set (historyLines docs)"
  by (simp_all add: contextLines_def historyLines_def)

text \<open>
  C7, as the code has it. Both rendering chains turn a retrieved list into the lines of
  its entries in the exact reverse of the retrieved order. The query returns the
  receipts newest first, so the rendered entries are in ascending order of creation
  time: no entry is followed by an older one, and the order is strict when the user's
  timestamps are distinct. There are at most 3 of them in the enhancement prompt and at
  most 15 in the curation prompt. The prompts sent by \<^verbatim>\<open>getEnhancedReceipt\<close> (first and
  third revision) and by the refresh of \<^verbatim>\<open>updateMemoryOnNewReceipt\<close> (third revision) are
  built from exactly these lines: the lines, joined by newlines in that order, are a
  contiguous part of each prompt, and so is the line of every retrieved entry.
\<close>

theorem prompt_entries_chronological:
  "contextLines docs = map entryLine (rev docs) \<and>
   historyLines docs = map entryLine (rev docs) \<and>
   (sorted (rev (map timestamp docs)) \<longrightarrow> sorted (map timestamp (rev docs))) \<and>
   sorted (rev (map timestamp (lastReceipts s u n))) \<and>
   sorted (map timestamp (rev (lastReceipts s u n))) \<and>
   (distinct (map timestamp (receipts s u)) \<longrightarrow>
      sorted_wrt (<) (map timestamp (rev (lastReceipts s u n)))) \<and>
   length (contextLines (lastReceipts s u 3)) \<le> 3 \<and>
   length (historyLines (lastReceipts s u 15)) \<le> 15 \<and>
   (auth ctx = Some u \<and> dat = Some \<lparr>data_text = Some raw\<rparr> \<and> raw \<noteq> [] \<and>
    \<not> faulty e (ReceiptsQuery u 3) \<longrightarrow>
      promptsSent (snd (getEnhancedReceipt_v1 e ctx dat s)) =
        [enhancePrompt_v1 (join nl (contextLines (lastReceipts s u 3))) raw]) \<and>
   (auth ctx = Some u \<and> dat = Some \<lparr>data_text = Some raw\<rparr> \<and> raw \<noteq> [] \<and>
    \<not> faulty e (MemoryRef u) \<and> \<not> faulty e (ReceiptsQuery u 3) \<longrightarrow>
      promptsSent (snd (getEnhancedReceipt_v3 e ctx dat s)) =
        [enhancePrompt_v3 (memorySummaryOf s u)
           (join nl (contextLines (lastReceipts s u 3))) raw]) \<and>
   (\<not> faulty e (UserRef u) \<and> (jsAdd (storedCount s u) 1) mod 5 = 0 \<and>
    \<not> faulty e (ReceiptsQuery u 15) \<and> \<not> faulty e (MemoryRef u) \<longrightarrow>
      promptsSent (snd (fst (updateMemoryOnNewReceipt_v3 e u s))) =
        [curatorPrompt_v3 (currentMemoryOf s u)
           (join nl (historyLines (lastReceipts s u 15)))]) \<and>
   sublist (join nl (contextLines docs))
     (enhancePrompt_v1 (join nl (contextLines docs)) raw) \<and>
   sublist (join nl (contextLines docs))
     (enhancePrompt_v3 mem (join nl (contextLines docs)) raw) \<and>
   sublist (join nl (historyLines docs))
     (curatorPrompt_v3 mem (join nl (historyLines docs))) \<and>
   (doc \<in> set docs \<longrightarrow>
      sublist (entryLine doc) (enhancePrompt_v1 (join nl (contextLines docs)) raw) \<and>
      sublist (entryLine doc) (enhancePrompt_v3 mem (join nl (contextLines docs)) raw) \<and>
      sublist (entryLine doc) (curatorPrompt_v3 mem (join nl (historyLines docs))))"
proof -
  have emb: "sublist (join nl (contextLines docs))
     (enhancePrompt_v1 (join nl (contextLines docs)) raw)"
    "sublist (join nl (contextLines docs))
     (enhancePrompt_v3 mem (join nl (contextLines docs)) raw)"
    "sublist (join nl (historyLines docs))
     (curatorPrompt_v3 mem (join nl (historyLines docs)))"
    by (rule enhancePrompt_v1_embeds_context enhancePrompt_v3_embeds_context
        curatorPrompt_v3_embeds_history)+
  have each: "sublist (entryLine doc) (enhancePrompt_v1 (join nl (contextLines docs)) raw) \<and>
      sublist (entryLine doc) (enhancePrompt_v3 mem (join nl (contextLines docs)) raw) \<and>
      sublist (entryLine doc) (curatorPrompt_v3 mem (join nl (historyLines docs)))"
    if "doc \<in> set docs"
  proof -
    have c: "sublist (entryLine doc) (join nl (contextLines docs))"
      and h: "sublist (entryLine doc) (join nl (historyLines docs))"
      using that by (simp_all add: sublist_join entry_line_in_lines)
    from c h emb show ?thesis by (blast intro: sublist_trans)
  qed
  have lines: "contextLines docs = map entryLine (rev docs)"
    "historyLines docs = map entryLine (rev docs)"
    by (simp_all add: contextLines_def historyLines_def rev_map)
  have gen: "sorted (rev (map timestamp docs)) \<longrightarrow> sorted (map timestamp (rev docs))"
    by (simp add: rev_map)
  have desc: "sorted (rev (map timestamp (lastReceipts s u n)))"
    using lastReceipts_ascending[of s u n] by (simp add: rev_map)
  have len: "length (contextLines (lastReceipts s u 3)) \<le> 3"
    "length (historyLines (lastReceipts s u 15)) \<le> 15"
    by (simp_all add: contextLines_def historyLines_def length_lastReceipts)
  have p1: "promptsSent (snd (getEnhancedReceipt_v1 e ctx dat s)) =
        [enhancePrompt_v1 (join nl (contextLines (lastReceipts s u 3))) raw]"
    if "auth ctx = Some u \<and> dat = Some \<lparr>data_text = Some raw\<rparr> \<and> raw \<noteq> [] \<and>
        \<not> faulty e (ReceiptsQuery u 3)"
    using that
    by (auto simp: getEnhancedReceipt_v1_body enhanceBody_v1_eq catchInternal_def
        promptsSent_append split: sum.splits list.splits)
  have p3: "promptsSent (snd (getEnhancedReceipt_v3 e ctx dat s)) =
        [enhancePrompt_v3 (memorySummaryOf s u)
           (join nl (contextLines (lastReceipts s u 3))) raw]"
    if "auth ctx = Some u \<and> dat = Some \<lparr>data_text = Some raw\<rparr> \<and> raw \<noteq> [] \<and>
        \<not> faulty e (MemoryRef u) \<and> \<not> faulty e (ReceiptsQuery u 3)"
    using that
    by (auto simp: getEnhancedReceipt_v3_body enhanceBody_v3_eq catchInternal_def
        promptsSent_append split: sum.splits)
  have pc: "promptsSent (snd (fst (updateMemoryOnNewReceipt_v3 e u s))) =
        [curatorPrompt_v3 (currentMemoryOf s u)
           (join nl (historyLines (lastReceipts s u 15)))]"
    if "\<not> faulty e (UserRef u) \<and> (jsAdd (storedCount s u) 1) mod 5 = 0 \<and>
        \<not> faulty e (ReceiptsQuery u 15) \<and> \<not> faulty e (MemoryRef u)"
    using that
    by (auto simp: updateMemoryOnNewReceipt_v3_def runTransaction_events updateBody_v3_eq
        split: sum.splits)
  from lines gen desc lastReceipts_ascending[of s u n] lastReceipts_strict[of s u n]
    len p1 p3 pc emb each
  show ?thesis by blast
qed

theorem prompt_entries_chronological_witness:
  "map timestamp (lastReceipts storeAtFour ''u'' 3) = [30, 20, 10] \<and>
   contextLines (lastReceipts storeAtFour ''u'' 3) =
     [''- ran 5k'', ''- made soup'', ''- slept late''] \<and>
   historyLines (lastReceipts storeAtFour ''u'' 15) =
     [''- ran 5k'', ''- made soup'', ''- slept late''] \<and>
   sorted_wrt (<) (map timestamp (rev (lastReceipts storeAtFour ''u'' 3))) \<and>
   promptsSent (snd (getEnhancedReceipt_v1 okEnv \<lparr>auth = Some ''u''\<rparr>
       (Some \<lparr>data_text = Some ''ran 5k''\<rparr>) storeAtFour)) =
     [enhancePrompt_v1 (join nl (contextLines (lastReceipts storeAtFour ''u'' 3))) ''ran 5k''] \<and>
   promptsSent (snd (getEnhancedReceipt_v3 okEnv \<lparr>auth = Some ''u''\<rparr>
       (Some \<lparr>data_text = Some ''ran 5k''\<rparr>) storeAtFour)) =
     [enhancePrompt_v3 (memorySummaryOf storeAtFour ''u'')
        (join nl (contextLines (lastReceipts storeAtFour ''u'' 3))) ''ran 5k''] \<and>
   promptsSent (snd (fst (updateMemoryOnNewReceipt_v3 okEnv ''u'' storeAtFour))) =
     [curatorPrompt_v3 (currentMemoryOf storeAtFour ''u'')
        (join nl (historyLines (lastReceipts storeAtFour ''u'' 15)))] \<and>
   sublist (join nl (contextLines (lastReceipts storeAtFour ''u'' 3)))
     (enhancePrompt_v1 (join nl (contextLines (lastReceipts storeAtFour ''u'' 3))) ''ran 5k'') \<and>
   sublist ''- made soup''
     (enhancePrompt_v3 (memorySummaryOf storeAtFour ''u'')
        (join nl (contextLines (lastReceipts storeAtFour ''u'' 3))) ''ran 5k'') \<and>
   sublist ''- made soup''
     (curatorPrompt_v3 (currentMemoryOf storeAtFour ''u'')
        (join nl (historyLines (lastReceipts storeAtFour ''u'' 3))))"
proof -
  note T = prompt_entries_chronological[where s = storeAtFour and u = "''u''" and n = 3 and
      e = okEnv and ctx = "\<lparr>auth = Some ''u''\<rparr>" and dat = "Some \<lparr>data_text = Some ''ran 5k''\<rparr>" and
      raw = "''ran 5k''" and docs = "lastReceipts storeAtFour ''u'' 3"]
  note S = prompt_entries_chronological[where raw = "''ran 5k''" and
      docs = "lastReceipts storeAtFour ''u'' 3" and
      doc = "\<lparr>message = ''made soup'', timestamp = 20\<rparr>"]
  have mem: "\<lparr>message = ''made soup'', timestamp = 20\<rparr> \<in> set (lastReceipts storeAtFour ''u'' 3)"
    by code_simp
  have el: "entryLine \<lparr>message = ''made soup'', timestamp = 20\<rparr> = ''- made soup''"
    by (simp add: entryLine_def)
  have e1: "sublist (join nl (contextLines (lastReceipts storeAtFour ''u'' 3)))
     (enhancePrompt_v1 (join nl (contextLines (lastReceipts storeAtFour ''u'' 3))) ''ran 5k'')"
    using T by blast
  have e3: "sublist ''- made soup''
     (enhancePrompt_v3 (memorySummaryOf storeAtFour ''u'')
        (join nl (contextLines (lastReceipts storeAtFour ''u'' 3))) ''ran 5k'')"
    using S[where mem = "memorySummaryOf storeAtFour ''u''"] mem unfolding el by blast
  have ec: "sublist ''- made soup''
     (curatorPrompt_v3 (currentMemoryOf storeAtFour ''u'')
        (join nl (historyLines (lastReceipts storeAtFour ''u'' 3))))"
    using S[where mem = "currentMemoryOf storeAtFour ''u''"] mem unfolding el by blast
  have ts: "map timestamp (lastReceipts storeAtFour ''u'' 3) = [30, 20, 10]"
    by code_simp
  have cl: "contextLines (lastReceipts storeAtFour ''u'' 3) =
     [''- ran 5k'', ''- made soup'', ''- slept late'']"
    by code_simp
  have hl: "historyLines (lastReceipts storeAtFour ''u'' 15) =
     [''- ran 5k'', ''- made soup'', ''- slept late'']"
    by code_simp
  have d: "distinct (map timestamp (receipts storeAtFour ''u''))"
    by (simp add: storeAtFour_def threeReceipts_def)
  have strict: "sorted_wrt (<) (map timestamp (rev (lastReceipts storeAtFour ''u'' 3)))"
    using T d by blast
  have p1: "promptsSent (snd (getEnhancedReceipt_v1 okEnv \<lparr>auth = Some ''u''\<rparr>
       (Some \<lparr>data_text = Some ''ran 5k''\<rparr>) storeAtFour)) =
     [enhancePrompt_v1 (join nl (contextLines (lastReceipts storeAtFour ''u'' 3))) ''ran 5k'']"
    using T by (simp add: sample_facts)
  have p3: "promptsSent (snd (getEnhancedReceipt_v3 okEnv \<lparr>auth = Some ''u''\<rparr>
       (Some \<lparr>data_text = Some ''ran 5k''\<rparr>) storeAtFour)) =
     [enhancePrompt_v3 (memorySummaryOf storeAtFour ''u'')
        (join nl (contextLines (lastReceipts storeAtFour ''u'' 3))) ''ran 5k'']"
    using T by (simp add: sample_facts)
  have pc: "promptsSent (snd (fst (updateMemoryOnNewReceipt_v3 okEnv ''u'' storeAtFour))) =
     [curatorPrompt_v3 (currentMemoryOf storeAtFour ''u'')
        (join nl (historyLines (lastReceipts storeAtFour ''u'' 15)))]"
    using T by (simp add: sample_facts)
  from ts cl hl strict p1 p3 pc e1 e3 ec show ?thesis by blast
qed

text \<open>
  C7 as stated asks for strictly ascending creation times. Two receipts created at the
  same time are both retrieved and both rendered, and their times are equal, not
  ascending.
\<close>

theorem tied_timestamps_not_strict:
  "map timestamp (rev (lastReceipts storeWithTies ''u'' 3)) = [10, 10] \<and>
   \<not> sorted_wrt (<) (map timestamp (rev (lastReceipts storeWithTies ''u'' 3))) \<and>
   contextLines (lastReceipts storeWithTies ''u'' 3) = [''- ran 5k'', ''- made soup''] \<and>
   promptsSent (snd (getEnhancedReceipt_v3 okEnv \<lparr>auth = Some ''u''\<rparr>
       (Some \<lparr>data_text = Some ''slept late''\<rparr>) storeWithTies)) =
     [enhancePrompt_v3 ''No long-term memory yet.''
        (join nl [''- ran 5k'', ''- made soup'']) ''slept late'']"
  by code_simp

subsection \<open>Committing a summary\<close>

lemma commit_setMemory:
  "commit t [TxSetMemory u newSummary] s =
     Some (s\<lparr>memories := (memories s)(u \<mapsto> \<lparr>summary = newSummary, lastUpdated = t\<rparr>)\<rparr>)"
  by (simp add: applyWrite_def)

text \<open>
  C8. The write \<^verbatim>\<open>transaction.set(memoryRef, {summary, lastUpdated: serverTimestamp()})\<close>,
  when committed at server time \<open>t\<close>, always succeeds and leaves the user's summary
  document with the given text and \<open>lastUpdated = t\<close>, whether or not a document
  existed; the resulting document is the same from any two prior stores, so it does not
  depend on a prior value; committing the same text again at a later or equal time
  gives the same \<open>summary\<close> and a \<open>lastUpdated\<close> that is not smaller. A successful refresh
  of the third revision leaves exactly the generated text and the commit time.
\<close>

theorem summary_commit_overwrites:
  "applyWrite t (TxSetMemory u newSummary) s =
     Some (s\<lparr>memories := (memories s)(u \<mapsto> \<lparr>summary = newSummary, lastUpdated = t\<rparr>)\<rparr>) \<and>
   (\<exists>s1. commit t [TxSetMemory u newSummary] s = Some s1 \<and>
      memories s1 u = Some \<lparr>summary = newSummary, lastUpdated = t\<rparr> \<and>
      users s1 = users s \<and> receipts s1 = receipts s) \<and>
   (\<exists>s1 s1'. commit t [TxSetMemory u newSummary] s = Some s1 \<and>
      commit t [TxSetMemory u newSummary] s' = Some s1' \<and> memories s1 u = memories s1' u) \<and>
   (ta \<le> tb \<longrightarrow>
      (\<exists>s1 s2 d1 d2. commit ta [TxSetMemory u newSummary] s = Some s1 \<and>
         commit tb [TxSetMemory u newSummary] s1 = Some s2 \<and>
         memories s1 u = Some d1 \<and> memories s2 u = Some d2 \<and>
         summary d1 = newSummary \<and> summary d2 = newSummary \<and> lastUpdated d1 \<le> lastUpdated d2)) \<and>
   (\<not> faulty e (UserRef u) \<and> (jsAdd (storedCount s u) 1) mod 5 = 0 \<and>
    \<not> faulty e (ReceiptsQuery u 15) \<and> \<not> faulty e (MemoryRef u) \<and>
    generate e (curatorPrompt_v3 (currentMemoryOf s u)
       (join nl (historyLines (lastReceipts s u 15)))) = Inr newSummary \<longrightarrow>
      memories (snd (updateMemoryOnNewReceipt_v3 e u s)) u =
        Some \<lparr>summary = newSummary, lastUpdated = now e\<rparr>)"
proof -
  have a: "applyWrite t (TxSetMemory u newSummary) s =
     Some (s\<lparr>memories := (memories s)(u \<mapsto> \<lparr>summary = newSummary, lastUpdated = t\<rparr>)\<rparr>)"
    by (simp add: applyWrite_def)
  have b: "\<exists>s1. commit t [TxSetMemory u newSummary] s = Some s1 \<and>
      memories s1 u = Some \<lparr>summary = newSummary, lastUpdated = t\<rparr> \<and>
      users s1 = users s \<and> receipts s1 = receipts s"
    by (simp add: commit_setMemory del: commit.simps)
  have c: "\<exists>s1 s1'. commit t [TxSetMemory u newSummary] s = Some s1 \<and>
      commit t [TxSetMemory u newSummary] s' = Some s1' \<and> memories s1 u = memories s1' u"
    by (simp add: commit_setMemory del: commit.simps)
  have d: "\<exists>s1 s2 d1 d2. commit ta [TxSetMemory u newSummary] s = Some s1 \<and>
         commit tb [TxSetMemory u newSummary] s1 = Some s2 \<and>
         memories s1 u = Some d1 \<and> memories s2 u = Some d2 \<and>
         summary d1 = newSummary \<and> summary d2 = newSummary \<and> lastUpdated d1 \<le> lastUpdated d2"
    if "ta \<le> tb"
    using that by (simp add: commit_setMemory del: commit.simps)
  have f: "memories (snd (updateMemoryOnNewReceipt_v3 e u s)) u =
        Some \<lparr>summary = newSummary, lastUpdated = now e\<rparr>"
    if "\<not> faulty e (UserRef u) \<and> (jsAdd (storedCount s u) 1) mod 5 = 0 \<and>
        \<not> faulty e (ReceiptsQuery u 15) \<and> \<not> faulty e (MemoryRef u) \<and>
        generate e (curatorPrompt_v3 (currentMemoryOf s u)
          (join nl (historyLines (lastReceipts s u 15)))) = Inr newSummary"
    using that by (simp add: updateMemoryOnNewReceipt_v3_refresh)
  from a b c d f show ?thesis by blast
qed

theorem summary_commit_overwrites_witness:
  "commit 9 [TxSetMemory ''u'' ''Runs most mornings.''] storeWithMemory =
     Some (storeWithMemory\<lparr>memories := (memories storeWithMemory)(''u'' \<mapsto>
             \<lparr>summary = ''Runs most mornings.'', lastUpdated = 9\<rparr>)\<rparr>) \<and>
   commit 12 [TxSetMemory ''u'' ''Runs most mornings.'']
     (storeWithMemory\<lparr>memories := (memories storeWithMemory)(''u'' \<mapsto>
             \<lparr>summary = ''Runs most mornings.'', lastUpdated = 9\<rparr>)\<rparr>) =
     Some (storeWithMemory\<lparr>memories := (memories storeWithMemory)(''u'' \<mapsto>
             \<lparr>summary = ''Runs most mornings.'', lastUpdated = 12\<rparr>)\<rparr>) \<and>
   memories (snd (updateMemoryOnNewReceipt_v3 okEnv ''u'' storeAtFour)) ''u'' =
     Some \<lparr>summary = ''Runs most mornings.'', lastUpdated = 7\<rparr> \<and>
   memories storeAtFour ''u'' = None"
proof -
  note T = summary_commit_overwrites[where t = "9" and u = "''u''" and
      newSummary = "''Runs most mornings.''" and s = storeWithMemory and ta = "9" and tb = "12"]
  note U = summary_commit_overwrites[where u = "''u''" and newSummary = "''Runs most mornings.''" and
      s = storeAtFour and e = okEnv]
  have a: "commit 9 [TxSetMemory ''u'' ''Runs most mornings.''] storeWithMemory =
     Some (storeWithMemory\<lparr>memories := (memories storeWithMemory)(''u'' \<mapsto>
             \<lparr>summary = ''Runs most mornings.'', lastUpdated = 9\<rparr>)\<rparr>)"
    using T[THEN conjunct1] by simp
  have b: "commit 12 [TxSetMemory ''u'' ''Runs most mornings.'']
     (storeWithMemory\<lparr>memories := (memories storeWithMemory)(''u'' \<mapsto>
             \<lparr>summary = ''Runs most mornings.'', lastUpdated = 9\<rparr>)\<rparr>) =
     Some (storeWithMemory\<lparr>memories := (memories storeWithMemory)(''u'' \<mapsto>
             \<lparr>summary = ''Runs most mornings.'', lastUpdated = 12\<rparr>)\<rparr>)"
    by (simp add: applyWrite_def)
  have c: "memories (snd (updateMemoryOnNewReceipt_v3 okEnv ''u'' storeAtFour)) ''u'' =
     Some \<lparr>summary = ''Runs most mornings.'', lastUpdated = 7\<rparr>"
    using U by (simp add: sample_facts okEnv_def)
  have d: "memories storeAtFour ''u'' = None"
    by (simp add: storeAtFour_def)
  from a b c d show ?thesis by blast
qed

subsection \<open>A user document that was never initialised\<close>

lemma updateMemoryOnNewReceipt_v2_missing_user:
  assumes "\<not> faulty e (UserRef u)" and "users s u = None"
  shows "updateMemoryOnNewReceipt_v2 e u s = ((Inl TypeError, [TxGet (UserRef u)]), s)"
  using assms by (simp add: updateMemoryOnNewReceipt_v2_def updateBody_v2_eq runTransaction_def)

lemma updateMemoryOnNewReceipt_v3_upsert:
  assumes "\<not> faulty e (UserRef u)"
    and "users s u = None \<or> (\<exists>d. users s u = Some d \<and> receiptCount d = None)"
  shows "fst (fst (updateMemoryOnNewReceipt_v3 e u s)) = Inr () \<and>
         (\<exists>d. users (snd (updateMemoryOnNewReceipt_v3 e u s)) u = Some d \<and>
              receiptCount d = Some 1)"
proof -
  have c: "storedCount s u = 0"
    using assms(2) by (auto simp: storedCount_def orZero_def numberField_def)
  have one: "jsAdd (storedCount s u) 1 = 1"
    by (simp add: c jsAdd_exact)
  then have "(jsAdd (storedCount s u) 1) mod 5 \<noteq> 0" by simp
  from updateMemoryOnNewReceipt_v3_plain[OF assms(1) this, unfolded one] show ?thesis
    by (auto split: option.splits)
qed

text \<open>
  C2. The third revision treats a missing user document or counter field as 0 and its
  write is an upsert that succeeds with \<open>receiptCount = 1\<close> (the lemma above). The second
  revision does not: for a user without a document, \<^verbatim>\<open>userDoc.data()\<close> is \<^verbatim>\<open>undefined\<close>, the
  callback throws, the transaction is rejected and nothing is written; and its write,
  \<^verbatim>\<open>transaction.update\<close>, could not be applied to a missing document either. Evaluated at
  the empty store, with the third revision beside it:
\<close>

theorem missing_user_document_v2:
  "users emptyStore ''u'' = None \<and>
   updateMemoryOnNewReceipt_v2 okEnv ''u'' emptyStore =
     ((Inl TypeError, [TxGet (UserRef ''u'')]), emptyStore) \<and>
   applyWrite (now okEnv) (TxUpdate ''u'' 1) emptyStore = None \<and>
   fst (updateMemoryOnNewReceipt_v3 okEnv ''u'' emptyStore) =
     (Inr (), [TxGet (UserRef ''u''), TxSetMerge ''u'' 1]) \<and>
   users (snd (updateMemoryOnNewReceipt_v3 okEnv ''u'' emptyStore)) ''u'' =
     Some \<lparr>receiptCount = Some 1\<rparr>"
proof -
  have u: "users emptyStore ''u'' = None" and c: "storedCount emptyStore ''u'' = 0"
    by (simp_all add: emptyStore_def storedCount_def)
  have v2: "updateMemoryOnNewReceipt_v2 okEnv ''u'' emptyStore =
     ((Inl TypeError, [TxGet (UserRef ''u'')]), emptyStore)"
    by (rule updateMemoryOnNewReceipt_v2_missing_user) (simp_all add: sample_facts u)
  have w: "applyWrite (now okEnv) (TxUpdate ''u'' 1) emptyStore = None"
    by (simp add: applyWrite_def u)
  have v3: "updateMemoryOnNewReceipt_v3 okEnv ''u'' emptyStore =
     ((Inr (), [TxGet (UserRef ''u''), TxSetMerge ''u'' (jsAdd (storedCount emptyStore ''u'') 1)]),
      emptyStore\<lparr>users := (users emptyStore)(''u'' \<mapsto>
         (case users emptyStore ''u'' of
            None \<Rightarrow> \<lparr>receiptCount = Some (jsAdd (storedCount emptyStore ''u'') 1)\<rparr>
          | Some d \<Rightarrow> d\<lparr>receiptCount := Some (jsAdd (storedCount emptyStore ''u'') 1)\<rparr>))\<rparr>)"
    by (rule updateMemoryOnNewReceipt_v3_plain) (simp_all add: sample_facts c)
  from u v2 w v3 show ?thesis by (simp add: c sample_facts)
qed

subsection \<open>The refresh inside the transaction\<close>

lemma updateMemoryOnNewReceipt_v2_never_refreshes:
  "promptsSent (snd (fst (updateMemoryOnNewReceipt_v2 e u s))) = [] \<and>
   memories (snd (updateMemoryOnNewReceipt_v2 e u s)) = memories s"
  by (simp add: updateMemoryOnNewReceipt_v2_def runTransaction_events updateBody_v2_eq
       runTransaction_def applyWrite_def split: option.splits)

lemma updateMemoryOnNewReceipt_v2_stuck:
  assumes "(jsAdd (storedCount s u) 1) mod 5 = 0"
  shows "\<exists>err. fst (fst (updateMemoryOnNewReceipt_v2 e u s)) = Inl err"
    and "snd (updateMemoryOnNewReceipt_v2 e u s) = s"
  using assms
  by (simp_all add: updateMemoryOnNewReceipt_v2_def updateBody_v2_eq runTransaction_def)

text \<open>
  C5. In the third revision, when the new count is a multiple of 5, the callback of the
  one transaction reads the last 15 receipts and the current summary (the empty string
  when absent), calls the backend and issues the summary write, which is committed
  together with the counter write. The two reads are issued on the database handle
  inside the callback (\<open>DbGet\<close>), not through \<^verbatim>\<open>transaction.get\<close>. In the second revision
  the refresh never completes: \<^verbatim>\<open>memoryDoc.exists()\<close> throws, so no prompt is sent, no
  summary is written and the counter stays where it was. Evaluated for a user whose
  counter is 4, with the third revision beside it:
\<close>

theorem refresh_aborts_v2:
  "storedCount storeAtFour ''u'' = 4 \<and>
   updateMemoryOnNewReceipt_v2 okEnv ''u'' storeAtFour =
     ((Inl TypeError,
       [TxGet (UserRef ''u''), TxUpdate ''u'' 5, LogInfo ''u'' 5,
        DbGet (ReceiptsQuery ''u'' 15), DbGet (MemoryRef ''u'')]), storeAtFour) \<and>
   snd (fst (updateMemoryOnNewReceipt_v3 okEnv ''u'' storeAtFour)) =
     [TxGet (UserRef ''u''), TxSetMerge ''u'' 5,
      DbGet (ReceiptsQuery ''u'' 15), DbGet (MemoryRef ''u''),
      Generate (curatorPrompt_v3 [] (join nl (historyLines (lastReceipts storeAtFour ''u'' 15)))),
      TxSetMemory ''u'' ''Runs most mornings.''] \<and>
   users (snd (updateMemoryOnNewReceipt_v3 okEnv ''u'' storeAtFour)) ''u'' =
     Some \<lparr>receiptCount = Some 5\<rparr> \<and>
   memories (snd (updateMemoryOnNewReceipt_v3 okEnv ''u'' storeAtFour)) ''u'' =
     Some \<lparr>summary = ''Runs most mornings.'', lastUpdated = 7\<rparr>"
proof -
  have cm: "currentMemoryOf storeAtFour ''u'' = []"
    by (simp add: currentMemoryOf_def storeAtFour_def)
  have us: "users storeAtFour ''u'' = Some \<lparr>receiptCount = Some 4\<rparr>"
    by (simp add: storeAtFour_def)
  have v2: "updateMemoryOnNewReceipt_v2 okEnv ''u'' storeAtFour =
     ((Inl TypeError,
       [TxGet (UserRef ''u''), TxUpdate ''u'' 5, LogInfo ''u'' 5,
        DbGet (ReceiptsQuery ''u'' 15), DbGet (MemoryRef ''u'')]), storeAtFour)"
    by (simp add: updateMemoryOnNewReceipt_v2_def updateBody_v2_eq runTransaction_def
        sample_facts us)
  have v3: "updateMemoryOnNewReceipt_v3 okEnv ''u'' storeAtFour =
           ((Inr (),
             [TxGet (UserRef ''u''), TxSetMerge ''u'' (jsAdd (storedCount storeAtFour ''u'') 1),
              DbGet (ReceiptsQuery ''u'' 15), DbGet (MemoryRef ''u''),
              Generate (curatorPrompt_v3 (currentMemoryOf storeAtFour ''u'')
                          (join nl (historyLines (lastReceipts storeAtFour ''u'' 15)))),
              TxSetMemory ''u'' ''Runs most mornings.'']),
            storeAtFour\<lparr>users := (users storeAtFour)(''u'' \<mapsto>
                 (case users storeAtFour ''u'' of
                    None \<Rightarrow> \<lparr>receiptCount = Some (jsAdd (storedCount storeAtFour ''u'') 1)\<rparr>
                  | Some d \<Rightarrow> d\<lparr>receiptCount := Some (jsAdd (storedCount storeAtFour ''u'') 1)\<rparr>)),
              memories := (memories storeAtFour)(''u'' \<mapsto>
                 \<lparr>summary = ''Runs most mornings.'', lastUpdated = now okEnv\<rparr>)\<rparr>)"
    by (rule updateMemoryOnNewReceipt_v3_refresh) (simp_all add: sample_facts)
  show ?thesis
    unfolding v2 v3 by (simp add: sample_facts cm us okEnv_def)
qed

end
